theory Spec2Isabelle
  imports Main "HOL-Library.Sublist"
begin

section \<open>Values, exceptions and effects\<close>

text \<open>
  The two programs, \<^verbatim>\<open>app.py\<close> and \<^verbatim>\<open>unified_app.py\<close>, are Python. The values that
  travel from the model's JSON payload into the handlers are dynamically typed: Python does
  not check the annotations of a handler's parameters. A dict is an association list (what
  \<^verbatim>\<open>json.loads\<close> builds has distinct keys). Strings are byte lists (UTF-8); JSON numbers with a
  fraction are not represented.
\<close>

datatype pyval =
    PNone
  | PBool bool
  | PInt int
  | PStr string
  | PList "pyval list"
  | PDict "(string \<times> pyval) list"

text \<open>
  Exceptions. The handlers distinguish \<^verbatim>\<open>SlackApiError\<close> from every other subclass of
  \<^verbatim>\<open>Exception\<close> (class name and \<^verbatim>\<open>str(e)\<close>). A \<^verbatim>\<open>SlackApiError\<close> has its \<^verbatim>\<open>str(e)\<close> and
  what evaluating \<^verbatim>\<open>e.response['error']\<close> gives: the value under the key, or the exception
  (class name and text) that the subscript raises when the response has no such entry.
  \<^verbatim>\<open>BaseException\<close>s outside \<^verbatim>\<open>Exception\<close> (a keyboard interrupt) are not represented.
\<close>

datatype lookup = Value pyval | Raises string string

datatype exn =
    SlackApiError string lookup
  | Exception string string

fun str_exn :: "exn \<Rightarrow> string" where
  "str_exn (SlackApiError msg code) = msg"
| "str_exn (Exception cls msg) = msg"

text \<open>
  The calls that leave the process, by the SDK method that issues them and with the arguments
  it is given. A chain of SDK calls with no logic of the program between them is one call:
  \<^verbatim>\<open>gh.get_user().create_repo(...)\<close> is \<open>GhCreateRepo\<close>.
\<close>

datatype call =
    ChatComplete string
  | GhCreateRepo pyval pyval pyval
  | GhGetRepos pyval
  | GhGetRepo pyval
  | GhCreateIssue pyval pyval pyval
  | GhGetIssues pyval
  | GhCreateFile pyval string pyval string
  | OpenRead pyval
  | JiraCreateIssue pyval pyval pyval pyval
  | JiraProjects
  | ConfluenceCreatePage pyval pyval pyval
  | ConfluenceGetAllSpaces
  | SlackConversationsOpen pyval
  | SlackChatPostMessage pyval "pyval option" pyval
  | SlackFilesUpload pyval pyval
  | SlackConversationsReplies pyval pyval
  | SlackUsersList pyval
  | SlackUsersInfo pyval
  | SlackConversationsList pyval
  | SlackReactionsAdd pyval pyval pyval
  | SlackConversationsHistory pyval pyval

fun is_model_call :: "call \<Rightarrow> bool" where
  "is_model_call (ChatComplete prompt) = True"
| "is_model_call c = False"

text \<open>
  A computation returns the calls it issued, in order, and either the exception it raised
  (\<open>Inl\<close>) or its value (\<open>Inr\<close>).
\<close>

type_synonym 'a eff = "call list \<times> (exn + 'a)"

definition ret :: "'a \<Rightarrow> 'a eff" where
  "ret x = ([], Inr x)"

definition raise :: "exn \<Rightarrow> 'a eff" where
  "raise e = ([], Inl e)"

definition pure :: "exn + 'a \<Rightarrow> 'a eff" where
  "pure r = ([], r)"

definition invoke :: "call \<Rightarrow> exn + 'a \<Rightarrow> 'a eff" where
  "invoke c r = ([c], r)"

definition and_then :: "'a eff \<Rightarrow> ('a \<Rightarrow> 'b eff) \<Rightarrow> 'b eff" where
  "and_then m f =
     (case m of
        (t, Inl e) \<Rightarrow> (t, Inl e)
      | (t, Inr x) \<Rightarrow> (case f x of (t', r) \<Rightarrow> (t @ t', r)))"

text \<open>
  \<^verbatim>\<open>try: m except ...: h\<close>. The handler \<open>h\<close> answers \<open>None\<close> for an exception
  that no \<^verbatim>\<open>except\<close> clause matches, which then propagates.
\<close>

definition try_except :: "'a eff \<Rightarrow> (exn \<Rightarrow> 'a eff option) \<Rightarrow> 'a eff" where
  "try_except m h =
     (case m of
        (t, Inr x) \<Rightarrow> (t, Inr x)
      | (t, Inl e) \<Rightarrow>
          (case h e of
             None \<Rightarrow> (t, Inl e)
           | Some (t', r) \<Rightarrow> (t @ t', r)))"

definition except_Exception :: "(exn \<Rightarrow> 'a eff) \<Rightarrow> exn \<Rightarrow> 'a eff option" where
  "except_Exception f e = Some (f e)"

definition except_SlackApiError :: "(exn \<Rightarrow> 'a eff) \<Rightarrow> exn \<Rightarrow> 'a eff option" where
  "except_SlackApiError f e =
     (case e of SlackApiError msg code \<Rightarrow> Some (f e) | Exception cls msg \<Rightarrow> None)"

section \<open>The environment\<close>

text \<open>
  What the model returns: \<^verbatim>\<open>response.choices[i].message\<close> with its \<^verbatim>\<open>tool_calls\<close>
  (absent, \<^verbatim>\<open>None\<close> or a list) and its \<^verbatim>\<open>content\<close>; a tool call has
  \<^verbatim>\<open>function.name\<close> and \<^verbatim>\<open>function.arguments\<close>, a JSON text.
\<close>

datatype tool_call = ToolCall (function_name: string) (function_arguments: string)

datatype message = Message (tool_calls: "tool_call list option") (content: pyval)

datatype response = Response (choices: "message list")

text \<open>
  A Slack response: \<^verbatim>\<open>result['ok']\<close>, \<^verbatim>\<open>result.get('error')\<close> and the fields the
  handler reads when \<^verbatim>\<open>ok\<close> holds.
\<close>

datatype 'a slack_response = SlackResponse (ok: bool) (error: "string option") (payload: 'a)

record slack_message =
  m_ts :: string
  m_user :: "string option"
  m_text :: string

record slack_profile =
  real_name :: "string option"
  display_name :: "string option"
  email :: "string option"
  title :: "string option"
  status_text :: "string option"

text \<open>
  The environment of a run: the outcome of every call that leaves the process, and the
  library functions whose text is not in the repository (\<^verbatim>\<open>json.loads\<close>, \<^verbatim>\<open>repr\<close>,
  \<^verbatim>\<open>int\<close>, \<^verbatim>\<open>textwrap.wrap\<close>), and the name of the module the program runs as. The results of the SDKs have the shape their callers read.
\<close>

record world =
  chat_complete :: "string \<Rightarrow> exn + response"
  json_loads :: "string \<Rightarrow> exn + pyval"
  py_repr :: "pyval \<Rightarrow> string"
  py_int :: "string \<Rightarrow> exn + int"
  textwrap_wrap :: "string \<Rightarrow> string list"
  py_module :: string
  open_read :: "pyval \<Rightarrow> exn + string"
  gh_create_repo :: "pyval \<Rightarrow> pyval \<Rightarrow> pyval \<Rightarrow> exn + string"
  gh_get_repos :: "pyval \<Rightarrow> exn + (string \<times> string option) list"
  gh_get_repo :: "pyval \<Rightarrow> exn + unit"
  gh_create_issue :: "pyval \<Rightarrow> pyval \<Rightarrow> pyval \<Rightarrow> exn + string"
  gh_get_issues :: "pyval \<Rightarrow> exn + (string \<times> string) list"
  gh_create_file :: "pyval \<Rightarrow> string \<Rightarrow> pyval \<Rightarrow> string \<Rightarrow> exn + unit"
  jira_create_issue :: "pyval \<Rightarrow> pyval \<Rightarrow> pyval \<Rightarrow> pyval \<Rightarrow> exn + string"
  jira_projects :: "exn + (string \<times> string option) list"
  confluence_create_page :: "pyval \<Rightarrow> pyval \<Rightarrow> pyval \<Rightarrow> exn + unit"
  confluence_get_all_spaces :: "exn + (string \<times> string) list"
  conversations_open :: "pyval \<Rightarrow> exn + string slack_response"
  chat_postMessage :: "pyval \<Rightarrow> pyval option \<Rightarrow> pyval \<Rightarrow> exn + string slack_response"
  files_upload :: "pyval \<Rightarrow> pyval \<Rightarrow> exn + unit"
  conversations_replies :: "pyval \<Rightarrow> pyval \<Rightarrow> exn + slack_message list slack_response"
  users_list :: "pyval \<Rightarrow> exn + (string \<times> string) list slack_response"
  users_info :: "pyval \<Rightarrow> exn + slack_profile slack_response"
  conversations_list :: "pyval \<Rightarrow> exn + (string \<times> string) list slack_response"
  reactions_add :: "pyval \<Rightarrow> pyval \<Rightarrow> pyval \<Rightarrow> exn + unit slack_response"
  conversations_history :: "pyval \<Rightarrow> pyval \<Rightarrow> exn + slack_message list slack_response"

section \<open>Python's string and value operations\<close>

definition newline :: string where
  "newline = [CHR 0x0A]"

text \<open>The bullet of \<^verbatim>\<open>unified_app.py\<close>, U+2022, in UTF-8.\<close>

definition bullet :: string where
  "bullet = [CHR 0xE2, CHR 0x80, CHR 0xA2]"

text \<open>
  The bullet as \<^verbatim>\<open>app.py\<close> has it: that file holds the three characters U+00E2, U+20AC,
  U+00A2.
\<close>

definition app_bullet :: string where
  "app_bullet = [CHR 0xC3, CHR 0xA2, CHR 0xE2, CHR 0x82, CHR 0xAC, CHR 0xC2, CHR 0xA2]"

fun join :: "string \<Rightarrow> string list \<Rightarrow> string" where
  "join sep [] = []"
| "join sep [x] = x"
| "join sep (x # y # ys) = x @ sep @ join sep (y # ys)"

text \<open>\<^verbatim>\<open>str(v)\<close> and the \<^verbatim>\<open>{v}\<close> of an f-string: a string is itself.\<close>

fun py_str :: "world \<Rightarrow> pyval \<Rightarrow> string" where
  "py_str w (PStr s) = s"
| "py_str w v = py_repr w v"

definition quoted :: "string \<Rightarrow> string" where
  "quoted s = [CHR 0x27] @ s @ [CHR 0x27]"

definition double_quoted :: "string \<Rightarrow> string" where
  "double_quoted s = [CHR 0x22] @ s @ [CHR 0x22]"

fun type_name :: "pyval \<Rightarrow> string" where
  "type_name PNone = ''NoneType''"
| "type_name (PBool b) = ''bool''"
| "type_name (PInt i) = ''int''"
| "type_name (PStr s) = ''str''"
| "type_name (PList xs) = ''list''"
| "type_name (PDict kv) = ''dict''"

text \<open>\<^verbatim>\<open>v.startswith(p)\<close>: only a string has the method.\<close>

fun startswith :: "pyval \<Rightarrow> string \<Rightarrow> exn + bool" where
  "startswith (PStr s) p = Inr (prefix p s)"
| "startswith v p =
     Inl (Exception ''AttributeError''
       (quoted (type_name v) @ '' object has no attribute '' @ quoted ''startswith''))"

text \<open>\<^verbatim>\<open>s.lstrip('#')\<close>\<close>

definition lstrip_hash :: "string \<Rightarrow> string" where
  "lstrip_hash s = dropWhile (\<lambda>c. c = CHR ''#'') s"

text \<open>
  \<^verbatim>\<open>min(v, k)\<close> for an integer \<open>k\<close>: the first argument unless \<^verbatim>\<open>k < v\<close>; a
  \<^verbatim>\<open>bool\<close> compares as 0 or 1; any other value cannot be compared with an integer.
\<close>

fun py_min :: "pyval \<Rightarrow> int \<Rightarrow> exn + pyval" where
  "py_min (PInt n) k = Inr (if k < n then PInt k else PInt n)"
| "py_min (PBool b) k = Inr (if k < (if b then 1 else 0) then PInt k else PBool b)"
| "py_min v k =
     Inl (Exception ''TypeError''
       (quoted ''<'' @ '' not supported between instances of '' @ quoted ''int'' @ '' and ''
          @ quoted (type_name v)))"

text \<open>\<^verbatim>\<open>d.get(key, default)\<close> on a field that may be absent.\<close>

definition get_or :: "string \<Rightarrow> string option \<Rightarrow> string" where
  "get_or d v = (case v of None \<Rightarrow> d | Some s \<Rightarrow> s)"

text \<open>\<^verbatim>\<open>x or default\<close> on a string that may be \<^verbatim>\<open>None\<close> or empty.\<close>

definition or_default :: "string option \<Rightarrow> string \<Rightarrow> string" where
  "or_default v d = (case v of None \<Rightarrow> d | Some s \<Rightarrow> if s = [] then d else s)"

section \<open>The handlers of \<^verbatim>\<open>unified_app.py\<close>\<close>

subsection \<open>GitHub, Jira, Confluence\<close>

definition unified_create_repository :: "world \<Rightarrow> pyval \<Rightarrow> pyval \<Rightarrow> pyval \<Rightarrow> string eff" where
  "unified_create_repository w name description private =
     try_except
       (and_then
          (invoke (GhCreateRepo name description private)
             (gh_create_repo w name description private))
          (\<lambda>html_url. ret (''Repository created: '' @ html_url)))
       (except_Exception (\<lambda>e. ret (''Error: '' @ str_exn e)))"

definition unified_list_repositories :: "world \<Rightarrow> pyval \<Rightarrow> string eff" where
  "unified_list_repositories w username =
     try_except
       (and_then (invoke (GhGetRepos username) (gh_get_repos w username))
          (\<lambda>repos. ret (join newline
             (map (\<lambda>(repo_name, repo_description).
                     bullet @ '' '' @ repo_name @ '': ''
                       @ or_default repo_description ''No description'') repos))))
       (except_Exception (\<lambda>e. ret (''Error: '' @ str_exn e)))"

definition create_jira_issue :: "world \<Rightarrow> pyval \<Rightarrow> pyval \<Rightarrow> pyval \<Rightarrow> pyval \<Rightarrow> string eff" where
  "create_jira_issue w project_key summary description issue_type =
     try_except
       (and_then
          (invoke (JiraCreateIssue project_key summary description issue_type)
             (jira_create_issue w project_key summary description issue_type))
          (\<lambda>issue_key. ret (''Issue created: '' @ issue_key)))
       (except_Exception (\<lambda>e. ret (''Error: '' @ str_exn e)))"

definition list_jira_projects :: "world \<Rightarrow> string eff" where
  "list_jira_projects w =
     try_except
       (and_then (invoke JiraProjects (jira_projects w))
          (\<lambda>projects. ret (join newline
             (map (\<lambda>(project_key, project_name).
                     bullet @ '' '' @ project_key @ '': '' @ get_or ''No name'' project_name)
                projects))))
       (except_Exception (\<lambda>e. ret (''Error: '' @ str_exn e)))"

definition create_confluence_page :: "world \<Rightarrow> pyval \<Rightarrow> pyval \<Rightarrow> pyval \<Rightarrow> string eff" where
  "create_confluence_page w space_key page_title page_content =
     try_except
       (and_then
          (invoke (ConfluenceCreatePage space_key page_title page_content)
             (confluence_create_page w space_key page_title page_content))
          (\<lambda>page. ret (''Page created in space '' @ py_str w space_key)))
       (except_Exception (\<lambda>e. ret (''Error: '' @ str_exn e)))"

definition list_confluence_spaces :: "world \<Rightarrow> string eff" where
  "list_confluence_spaces w =
     try_except
       (and_then (invoke ConfluenceGetAllSpaces (confluence_get_all_spaces w))
          (\<lambda>spaces. ret (join newline
             (map (\<lambda>(space_key, space_name). bullet @ '' '' @ space_key @ '': '' @ space_name)
                spaces))))
       (except_Exception (\<lambda>e. ret (''Error: '' @ str_exn e)))"

subsection \<open>Slack\<close>

text \<open>
  The two \<^verbatim>\<open>except\<close> clauses of \<^verbatim>\<open>send_slack_message\<close>: a \<^verbatim>\<open>SlackApiError\<close> is
  answered by \<^verbatim>\<open>e.response['error']\<close>, any other exception by its text. The subscript is
  evaluated inside the first clause: an exception it raises is not caught by the second
  clause and leaves the handler.
\<close>

definition send_slack_message_except :: "world \<Rightarrow> exn \<Rightarrow> string eff option" where
  "send_slack_message_except w e =
     (case e of
        SlackApiError msg (Value err) \<Rightarrow>
          Some (ret
            (if err = PStr ''channel_not_found''
             then ''Error: Channel or user not found. Please check the channel ID or user ID.''
             else if err = PStr ''not_in_channel''
             then ''Error: Bot is not in this channel. Please add the bot to the channel first.''
             else ''Slack API Error: '' @ py_str w err))
      | SlackApiError msg (Raises cls m) \<Rightarrow> Some (raise (Exception cls m))
      | Exception cls msg \<Rightarrow> Some (ret (''Error: '' @ msg)))"

definition send_slack_message :: "world \<Rightarrow> pyval \<Rightarrow> pyval \<Rightarrow> string eff" where
  "send_slack_message w channel text =
     try_except
       (let post = (\<lambda>channel_id.
              and_then
                (invoke (SlackChatPostMessage channel_id None text)
                   (chat_postMessage w channel_id None text))
                (\<lambda>response.
                   ret (if ok response then ''Message sent successfully''
                        else ''Error sending message: ''
                               @ get_or ''Unknown error'' (error response))))
        in and_then (pure (startswith channel ''D''))
             (\<lambda>dm.
                if dm then
                  and_then
                    (invoke (SlackConversationsOpen (PList [channel]))
                       (conversations_open w (PList [channel])))
                    (\<lambda>conversation.
                       if ok conversation then post (PStr (payload conversation))
                       else ret (''Error opening conversation: ''
                                   @ get_or ''Unknown error'' (error conversation)))
                else post channel))
       (send_slack_message_except w)"

definition upload_file_to_slack :: "world \<Rightarrow> pyval \<Rightarrow> pyval \<Rightarrow> string eff" where
  "upload_file_to_slack w channels filepath =
     try_except
       (and_then (invoke (SlackFilesUpload channels filepath) (files_upload w channels filepath))
          (\<lambda>response. ret (''File uploaded to '' @ py_str w channels)))
       (except_SlackApiError (\<lambda>e. ret (''Error: '' @ str_exn e)))"

definition message_line :: "slack_message \<Rightarrow> string" where
  "message_line m = ''['' @ m_ts m @ ''] '' @ get_or ''Unknown'' (m_user m) @ '': '' @ m_text m"

definition slack_get_thread_replies :: "world \<Rightarrow> pyval \<Rightarrow> pyval \<Rightarrow> string eff" where
  "slack_get_thread_replies w channel_id thread_ts =
     try_except
       (and_then
          (invoke (SlackConversationsReplies channel_id thread_ts)
             (conversations_replies w channel_id thread_ts))
          (\<lambda>result.
             ret (if ok result then join newline (map message_line (payload result))
                  else ''Error getting replies: '' @ get_or ''Unknown error'' (error result))))
       (except_SlackApiError (\<lambda>e. ret (''Error: '' @ str_exn e)))"

definition slack_get_users :: "world \<Rightarrow> pyval \<Rightarrow> string eff" where
  "slack_get_users w limit =
     try_except
       (and_then (pure (py_min limit 200))
          (\<lambda>n. and_then (invoke (SlackUsersList n) (users_list w n))
             (\<lambda>result.
                ret (if ok result
                     then join newline
                            (map (\<lambda>(u_name, u_id). bullet @ '' '' @ u_name @ '' ('' @ u_id @ '')'')
                               (payload result))
                     else ''Error listing users: '' @ get_or ''Unknown error'' (error result)))))
       (except_SlackApiError (\<lambda>e. ret (''Error: '' @ str_exn e)))"

definition slack_get_user_profile :: "world \<Rightarrow> pyval \<Rightarrow> string eff" where
  "slack_get_user_profile w user_id =
     try_except
       (and_then (invoke (SlackUsersInfo user_id) (users_info w user_id))
          (\<lambda>result.
             ret (if ok result
                  then ''User Profile:'' @ newline
                     @ bullet @ '' Name: '' @ get_or ''N/A'' (real_name (payload result)) @ newline
                     @ bullet @ '' Display Name: ''
                         @ get_or ''N/A'' (display_name (payload result)) @ newline
                     @ bullet @ '' Email: '' @ get_or ''N/A'' (email (payload result)) @ newline
                     @ bullet @ '' Title: '' @ get_or ''N/A'' (title (payload result)) @ newline
                     @ bullet @ '' Status: '' @ get_or ''N/A'' (status_text (payload result))
                  else ''Error getting profile: '' @ get_or ''Unknown error'' (error result))))
       (except_SlackApiError (\<lambda>e. ret (''Error: '' @ str_exn e)))"

definition slack_list_channels :: "world \<Rightarrow> pyval \<Rightarrow> string eff" where
  "slack_list_channels w limit =
     try_except
       (and_then (pure (py_min limit 200))
          (\<lambda>n. and_then (invoke (SlackConversationsList n) (conversations_list w n))
             (\<lambda>result.
                ret (if ok result
                     then join newline
                            (map (\<lambda>(c_name, c_id). bullet @ '' '' @ c_name @ '' ('' @ c_id @ '')'')
                               (payload result))
                     else ''Error listing channels: ''
                            @ get_or ''Unknown error'' (error result)))))
       (except_SlackApiError (\<lambda>e. ret (''Error: '' @ str_exn e)))"

definition slack_post_message_except :: "world \<Rightarrow> exn \<Rightarrow> string eff option" where
  "slack_post_message_except w e =
     (case e of
        SlackApiError msg (Value err) \<Rightarrow>
          Some (ret
            (if err = PStr ''not_in_channel''
             then ''Error: Bot is not in this channel. Please add the bot using ''
                    @ quoted ''/invite @your_bot_name''
             else if err = PStr ''channel_not_found''
             then ''Error: Channel not found. Please check the channel name.''
             else ''Slack API Error: '' @ py_str w err))
      | SlackApiError msg (Raises cls m) \<Rightarrow> Some (raise (Exception cls m))
      | Exception cls msg \<Rightarrow> Some (ret (''Error: '' @ msg)))"

definition slack_post_message :: "world \<Rightarrow> pyval \<Rightarrow> pyval \<Rightarrow> string eff" where
  "slack_post_message w channel_id text =
     try_except
       (and_then (pure (startswith channel_id ''C''))
          (\<lambda>is_id.
             let channel_id' =
                   (if is_id then channel_id
                    else (case channel_id of PStr s \<Rightarrow> PStr (lstrip_hash s) | v \<Rightarrow> v))
             in and_then
                  (invoke (SlackChatPostMessage channel_id' None text)
                     (chat_postMessage w channel_id' None text))
                  (\<lambda>result.
                     ret (if ok result
                          then ''Message posted successfully (ts: '' @ payload result @ '')''
                          else ''Error posting message: ''
                                 @ get_or ''Unknown error'' (error result)))))
       (slack_post_message_except w)"

definition slack_reply_to_thread :: "world \<Rightarrow> pyval \<Rightarrow> pyval \<Rightarrow> pyval \<Rightarrow> string eff" where
  "slack_reply_to_thread w channel_id thread_ts text =
     try_except
       (and_then
          (invoke (SlackChatPostMessage channel_id (Some thread_ts) text)
             (chat_postMessage w channel_id (Some thread_ts) text))
          (\<lambda>result.
             ret (if ok result
                  then ''Reply posted successfully (ts: '' @ payload result @ '')''
                  else ''Error posting reply: '' @ get_or ''Unknown error'' (error result))))
       (except_SlackApiError (\<lambda>e. ret (''Error: '' @ str_exn e)))"

definition slack_add_reaction :: "world \<Rightarrow> pyval \<Rightarrow> pyval \<Rightarrow> pyval \<Rightarrow> string eff" where
  "slack_add_reaction w channel_id timestamp reaction =
     try_except
       (and_then
          (invoke (SlackReactionsAdd channel_id timestamp reaction)
             (reactions_add w channel_id timestamp reaction))
          (\<lambda>result.
             ret (if ok result
                  then ''Reaction '' @ quoted (py_str w reaction) @ '' added successfully''
                  else ''Error adding reaction: '' @ get_or ''Unknown error'' (error result))))
       (except_SlackApiError (\<lambda>e. ret (''Error: '' @ str_exn e)))"

definition slack_get_channel_history :: "world \<Rightarrow> pyval \<Rightarrow> pyval \<Rightarrow> string eff" where
  "slack_get_channel_history w channel_id limit =
     try_except
       (and_then
          (invoke (SlackConversationsHistory channel_id limit)
             (conversations_history w channel_id limit))
          (\<lambda>result.
             ret (if ok result then join newline (map message_line (payload result))
                  else ''Error getting history: '' @ get_or ''Unknown error'' (error result))))
       (except_SlackApiError (\<lambda>e. ret (''Error: '' @ str_exn e)))"

section \<open>The handlers of \<^verbatim>\<open>app.py\<close>\<close>

text \<open>\<^verbatim>\<open>os.path.basename\<close>: what follows the last slash; only a path has one.\<close>

fun basename :: "pyval \<Rightarrow> exn + string" where
  "basename (PStr s) = Inr (rev (takeWhile (\<lambda>c. c \<noteq> CHR ''/'') (rev s)))"
| "basename v =
     Inl (Exception ''TypeError''
       (''expected str, bytes or os.PathLike object, not '' @ type_name v))"

definition app_create_repository :: "world \<Rightarrow> pyval \<Rightarrow> pyval \<Rightarrow> pyval \<Rightarrow> string eff" where
  "app_create_repository w name description private =
     try_except
       (and_then
          (invoke (GhCreateRepo name description private)
             (gh_create_repo w name description private))
          (\<lambda>html_url. ret (''Repository created successfully: '' @ html_url)))
       (except_Exception (\<lambda>e. ret (''Error creating repository: '' @ str_exn e)))"

definition create_github_issue :: "world \<Rightarrow> pyval \<Rightarrow> pyval \<Rightarrow> pyval \<Rightarrow> string eff" where
  "create_github_issue w repo_name issue_title body =
     try_except
       (and_then
          (invoke (GhCreateIssue repo_name issue_title body)
             (gh_create_issue w repo_name issue_title body))
          (\<lambda>html_url. ret (''Issue created successfully: '' @ html_url)))
       (except_Exception (\<lambda>e. ret (''Error creating issue: '' @ str_exn e)))"

text \<open>An issue is its number, in decimal, and its title.\<close>

definition list_repository_issues :: "world \<Rightarrow> pyval \<Rightarrow> string eff" where
  "list_repository_issues w repo_name =
     try_except
       (and_then (invoke (GhGetIssues repo_name) (gh_get_issues w repo_name))
          (\<lambda>issues. ret (join newline
             (map (\<lambda>(issue_number, issue_title). ''#'' @ issue_number @ '': '' @ issue_title)
                issues))))
       (except_Exception (\<lambda>e. ret (''Error listing issues: '' @ str_exn e)))"

definition app_list_repositories :: "world \<Rightarrow> pyval \<Rightarrow> string eff" where
  "app_list_repositories w username =
     try_except
       (and_then (invoke (GhGetRepos username) (gh_get_repos w username))
          (\<lambda>repos. ret (join newline
             (map (\<lambda>(repo_name, repo_description).
                     app_bullet @ '' '' @ repo_name @ '': ''
                       @ or_default repo_description ''No description'') repos))))
       (except_Exception (\<lambda>e. ret (''Error listing repositories: '' @ str_exn e)))"

definition upload_file :: "world \<Rightarrow> pyval \<Rightarrow> pyval \<Rightarrow> pyval \<Rightarrow> string eff" where
  "upload_file w repo_name file_path commit_message =
     try_except
       (and_then (invoke (GhGetRepo repo_name) (gh_get_repo w repo_name))
          (\<lambda>repo. and_then (invoke (OpenRead file_path) (open_read w file_path))
             (\<lambda>file_content. and_then (pure (basename file_path))
                (\<lambda>file_name.
                   and_then
                     (invoke (GhCreateFile repo_name file_name commit_message file_content)
                        (gh_create_file w repo_name file_name commit_message file_content))
                     (\<lambda>created.
                        ret (''File '' @ file_name @ '' uploaded successfully to ''
                               @ py_str w repo_name))))))
       (except_Exception (\<lambda>e. ret (''Error uploading file: '' @ str_exn e)))"

section \<open>Calling a handler with \<^verbatim>\<open>**function_args\<close>\<close>

text \<open>
  A signature lists the parameters of a handler in order, each with its default if it has
  one. Binding a mapping to it fails with a \<^verbatim>\<open>TypeError\<close> on the first key that is no
  parameter, then on the parameters without default that the mapping lacks; the texts are the
  interpreter's.
\<close>

type_synonym params = "(string \<times> pyval option) list"

definition required_params :: "params \<Rightarrow> string list" where
  "required_params sig = map fst (filter (\<lambda>p. snd p = None) sig)"

fun digit_text :: "nat \<Rightarrow> string" where
  "digit_text n =
     (if n < 10 then [char_of (48 + n)] else digit_text (n div 10) @ [char_of (48 + n mod 10)])"

fun name_list :: "string list \<Rightarrow> string" where
  "name_list [] = []"
| "name_list [a] = quoted a"
| "name_list [a, b] = quoted a @ '' and '' @ quoted b"
| "name_list (a # b # c # cs) =
     (if cs = [] then quoted a @ '', '' @ quoted b @ '', and '' @ quoted c
      else quoted a @ '', '' @ name_list (b # c # cs))"

definition missing_arguments :: "string \<Rightarrow> string list \<Rightarrow> exn" where
  "missing_arguments fname missing =
     Exception ''TypeError''
       (fname @ ''() missing '' @ digit_text (length missing) @ '' required positional argument''
          @ (if length missing = 1 then [] else ''s'') @ '': '' @ name_list missing)"

definition unexpected_keyword :: "string \<Rightarrow> string \<Rightarrow> exn" where
  "unexpected_keyword fname k =
     Exception ''TypeError'' (fname @ ''() got an unexpected keyword argument '' @ quoted k)"

text \<open>This text names the function with its module, which the environment gives.\<close>

definition not_a_mapping :: "world \<Rightarrow> string \<Rightarrow> pyval \<Rightarrow> exn" where
  "not_a_mapping w fname v =
     Exception ''TypeError''
       (py_module w @ ''.'' @ fname @ ''() argument after ** must be a mapping, not ''
          @ type_name v)"

definition bind_kwargs ::
  "string \<Rightarrow> params \<Rightarrow> (string \<times> pyval) list \<Rightarrow> exn + (string \<Rightarrow> pyval)" where
  "bind_kwargs fname sig kv =
     (case filter (\<lambda>k. k \<notin> set (map fst sig)) (map fst kv) of
        k # ks \<Rightarrow> Inl (unexpected_keyword fname k)
      | [] \<Rightarrow>
          (case filter (\<lambda>p. p \<notin> set (map fst kv)) (required_params sig) of
             m # ms \<Rightarrow> Inl (missing_arguments fname (m # ms))
           | [] \<Rightarrow>
               Inr (\<lambda>p. case map_of kv p of
                          Some v \<Rightarrow> v
                        | None \<Rightarrow> (case map_of sig p of Some (Some d) \<Rightarrow> d | _ \<Rightarrow> PNone))))"

text \<open>
  A branch of the dispatcher's \<^verbatim>\<open>if\<close>/\<^verbatim>\<open>elif\<close> chain either expands the mapping into
  the handler's keyword parameters, \<^verbatim>\<open>f(**function_args)\<close>, or calls the handler with no
  argument, \<^verbatim>\<open>f()\<close>.
\<close>

datatype branch =
    Expand params "world \<Rightarrow> (string \<Rightarrow> pyval) \<Rightarrow> string eff"
  | NoArgs "world \<Rightarrow> string eff"

definition call_handler :: "string \<Rightarrow> branch \<Rightarrow> world \<Rightarrow> pyval \<Rightarrow> string eff" where
  "call_handler fname b w function_args =
     (case b of
        NoArgs f \<Rightarrow> f w
      | Expand sig body \<Rightarrow>
          (case function_args of
             PDict kv \<Rightarrow> and_then (pure (bind_kwargs fname sig kv)) (body w)
           | v \<Rightarrow> raise (not_a_mapping w fname v)))"

section \<open>The tool catalogs\<close>

text \<open>
  An entry of \<^verbatim>\<open>tools\<close>: the name and description of the function, its properties (name,
  JSON type, default) and the names it declares required; an entry without
  \<^verbatim>\<open>"required"\<close> declares none. The descriptions of the properties are left out.
\<close>

record tool =
  tool_name :: string
  tool_description :: string
  tool_properties :: "(string \<times> string \<times> pyval option) list"
  tool_required :: "string list"

definition app_tools :: "tool list" where
  "app_tools =
    [\<lparr>tool_name = ''create_repository'',
      tool_description = ''Creates a new GitHub repository'',
      tool_properties =
       [(''name'', ''string'', None),
        (''description'', ''string'', None),
        (''private'', ''boolean'', None)],
      tool_required = [''name'']\<rparr>,
     \<lparr>tool_name = ''list_repositories'',
      tool_description = ''Lists all repositories for a GitHub user'',
      tool_properties =
       [(''username'', ''string'', None)],
      tool_required = [''username'']\<rparr>,
     \<lparr>tool_name = ''create_github_issue'',
      tool_description = ''Creates a new issue on GitHub repository'',
      tool_properties =
       [(''repo_name'', ''string'', None),
        (''title'', ''string'', None),
        (''body'', ''string'', None)],
      tool_required = [''repo_name'', ''title'', ''body'']\<rparr>,
     \<lparr>tool_name = ''list_repository_issues'',
      tool_description = ''Lists open issues in a GitHub repository'',
      tool_properties =
       [(''repo_name'', ''string'', None)],
      tool_required = [''repo_name'']\<rparr>,
     \<lparr>tool_name = ''upload_file'',
      tool_description = ''Uploads a Python file to a GitHub repository'',
      tool_properties =
       [(''repo_name'', ''string'', None),
        (''file_path'', ''string'', None),
        (''commit_message'', ''string'', None)],
      tool_required = [''repo_name'', ''file_path'']\<rparr>]"

definition unified_tools :: "tool list" where
  "unified_tools =
    [\<lparr>tool_name = ''create_repository'',
      tool_description = ''Creates a new GitHub repository'',
      tool_properties =
       [(''name'', ''string'', None),
        (''description'', ''string'', None),
        (''private'', ''boolean'', None)],
      tool_required = [''name'']\<rparr>,
     \<lparr>tool_name = ''list_repositories'',
      tool_description = ''Lists all repositories for a GitHub user'',
      tool_properties =
       [(''username'', ''string'', None)],
      tool_required = [''username'']\<rparr>,
     \<lparr>tool_name = ''create_jira_issue'',
      tool_description = ''Creates a new Jira issue'',
      tool_properties =
       [(''project_key'', ''string'', None),
        (''summary'', ''string'', None),
        (''description'', ''string'', None),
        (''issue_type'', ''string'', Some (PStr ''Task''))],
      tool_required = [''project_key'', ''summary'']\<rparr>,
     \<lparr>tool_name = ''list_jira_projects'',
      tool_description = ''Lists all available Jira projects'',
      tool_properties =
       [],
      tool_required = []\<rparr>,
     \<lparr>tool_name = ''create_confluence_page'',
      tool_description = ''Creates a new Confluence page'',
      tool_properties =
       [(''space_key'', ''string'', None),
        (''title'', ''string'', None),
        (''content'', ''string'', None)],
      tool_required = [''space_key'', ''title'', ''content'']\<rparr>,
     \<lparr>tool_name = ''list_confluence_spaces'',
      tool_description = ''Lists all available Confluence spaces'',
      tool_properties =
       [],
      tool_required = []\<rparr>,
     \<lparr>tool_name = ''send_slack_message'',
      tool_description = ''Sends a message to a Slack channel or DM'',
      tool_properties =
       [(''channel'', ''string'', None),
        (''text'', ''string'', None)],
      tool_required = [''channel'', ''text'']\<rparr>,
     \<lparr>tool_name = ''upload_file_to_slack'',
      tool_description = ''Uploads a file to Slack'',
      tool_properties =
       [(''channels'', ''string'', None),
        (''filepath'', ''string'', None)],
      tool_required = [''channels'', ''filepath'']\<rparr>,
     \<lparr>tool_name = ''slack_get_thread_replies'',
      tool_description = ''Get all replies in a message thread'',
      tool_properties =
       [(''channel_id'', ''string'', None),
        (''thread_ts'', ''string'', None)],
      tool_required = [''channel_id'', ''thread_ts'']\<rparr>,
     \<lparr>tool_name = ''slack_get_users'',
      tool_description = ''Get list of workspace users'',
      tool_properties =
       [(''limit'', ''integer'', Some (PInt 100))],
      tool_required = []\<rparr>,
     \<lparr>tool_name = ''slack_get_user_profile'',
      tool_description = ''Get detailed profile information for a specific user'',
      tool_properties =
       [(''user_id'', ''string'', None)],
      tool_required = [''user_id'']\<rparr>,
     \<lparr>tool_name = ''slack_list_channels'',
      tool_description = ''List public channels in the workspace'',
      tool_properties =
       [(''limit'', ''integer'', Some (PInt 100))],
      tool_required = []\<rparr>,
     \<lparr>tool_name = ''slack_post_message'',
      tool_description = ''Post a new message to a Slack channel'',
      tool_properties =
       [(''channel_id'', ''string'', None),
        (''text'', ''string'', None)],
      tool_required = [''channel_id'', ''text'']\<rparr>,
     \<lparr>tool_name = ''slack_reply_to_thread'',
      tool_description = ''Reply to a specific message thread'',
      tool_properties =
       [(''channel_id'', ''string'', None),
        (''thread_ts'', ''string'', None),
        (''text'', ''string'', None)],
      tool_required = [''channel_id'', ''thread_ts'', ''text'']\<rparr>,
     \<lparr>tool_name = ''slack_add_reaction'',
      tool_description = ''Add an emoji reaction to a message'',
      tool_properties =
       [(''channel_id'', ''string'', None),
        (''timestamp'', ''string'', None),
        (''reaction'', ''string'', None)],
      tool_required = [''channel_id'', ''timestamp'', ''reaction'']\<rparr>,
     \<lparr>tool_name = ''slack_get_channel_history'',
      tool_description = ''Get recent messages from a channel'',
      tool_properties =
       [(''channel_id'', ''string'', None),
        (''limit'', ''integer'', Some (PInt 10))],
      tool_required = [''channel_id'']\<rparr>]"

section \<open>The dispatchers\<close>

text \<open>
  The \<^verbatim>\<open>if\<close>/\<^verbatim>\<open>elif\<close> chain of \<^verbatim>\<open>get_ai_response\<close>, in the order of the source:
  the first branch whose name equals \<^verbatim>\<open>function_name\<close> is taken. Each branch has the
  signature of the handler it calls.
\<close>

definition app_branches :: "(string \<times> branch) list" where
  "app_branches =
    [(''upload_file'',
        Expand [(''repo_name'', None), (''file_path'', None),
                (''commit_message'', Some (PStr ''Add Python script''))]
          (\<lambda>w a. upload_file w (a ''repo_name'') (a ''file_path'') (a ''commit_message''))),
     (''create_repository'',
        Expand [(''name'', None), (''description'', Some (PStr [])),
                (''private'', Some (PBool False))]
          (\<lambda>w a. app_create_repository w (a ''name'') (a ''description'') (a ''private''))),
     (''list_repositories'',
        Expand [(''username'', None)] (\<lambda>w a. app_list_repositories w (a ''username''))),
     (''create_github_issue'',
        Expand [(''repo_name'', None), (''title'', None), (''body'', None)]
          (\<lambda>w a. create_github_issue w (a ''repo_name'') (a ''title'') (a ''body''))),
     (''list_repository_issues'',
        Expand [(''repo_name'', None)] (\<lambda>w a. list_repository_issues w (a ''repo_name'')))]"

definition unified_branches :: "(string \<times> branch) list" where
  "unified_branches =
    [(''create_repository'',
        Expand [(''name'', None), (''description'', Some (PStr [])),
                (''private'', Some (PBool False))]
          (\<lambda>w a. unified_create_repository w (a ''name'') (a ''description'') (a ''private''))),
     (''list_repositories'',
        Expand [(''username'', None)] (\<lambda>w a. unified_list_repositories w (a ''username''))),
     (''create_jira_issue'',
        Expand [(''project_key'', None), (''summary'', None),
                (''description'', Some (PStr [])), (''issue_type'', Some (PStr ''Task''))]
          (\<lambda>w a. create_jira_issue w (a ''project_key'') (a ''summary'') (a ''description'')
                    (a ''issue_type''))),
     (''list_jira_projects'', NoArgs list_jira_projects),
     (''create_confluence_page'',
        Expand [(''space_key'', None), (''title'', None), (''content'', None)]
          (\<lambda>w a. create_confluence_page w (a ''space_key'') (a ''title'') (a ''content''))),
     (''list_confluence_spaces'', NoArgs list_confluence_spaces),
     (''send_slack_message'',
        Expand [(''channel'', None), (''text'', None)]
          (\<lambda>w a. send_slack_message w (a ''channel'') (a ''text''))),
     (''upload_file_to_slack'',
        Expand [(''channels'', None), (''filepath'', None)]
          (\<lambda>w a. upload_file_to_slack w (a ''channels'') (a ''filepath''))),
     (''slack_get_thread_replies'',
        Expand [(''channel_id'', None), (''thread_ts'', None)]
          (\<lambda>w a. slack_get_thread_replies w (a ''channel_id'') (a ''thread_ts''))),
     (''slack_get_users'',
        Expand [(''limit'', Some (PInt 100))] (\<lambda>w a. slack_get_users w (a ''limit''))),
     (''slack_get_user_profile'',
        Expand [(''user_id'', None)] (\<lambda>w a. slack_get_user_profile w (a ''user_id''))),
     (''slack_list_channels'',
        Expand [(''limit'', Some (PInt 100))] (\<lambda>w a. slack_list_channels w (a ''limit''))),
     (''slack_post_message'',
        Expand [(''channel_id'', None), (''text'', None)]
          (\<lambda>w a. slack_post_message w (a ''channel_id'') (a ''text''))),
     (''slack_reply_to_thread'',
        Expand [(''channel_id'', None), (''thread_ts'', None), (''text'', None)]
          (\<lambda>w a. slack_reply_to_thread w (a ''channel_id'') (a ''thread_ts'') (a ''text''))),
     (''slack_add_reaction'',
        Expand [(''channel_id'', None), (''timestamp'', None), (''reaction'', None)]
          (\<lambda>w a. slack_add_reaction w (a ''channel_id'') (a ''timestamp'') (a ''reaction''))),
     (''slack_get_channel_history'',
        Expand [(''channel_id'', None), (''limit'', Some (PInt 10))]
          (\<lambda>w a. slack_get_channel_history w (a ''channel_id'') (a ''limit'')))]"

text \<open>\<^verbatim>\<open>response.choices[0].message\<close>\<close>

definition first_choice :: "response \<Rightarrow> exn + message" where
  "first_choice r =
     (case choices r of
        [] \<Rightarrow> Inl (Exception ''IndexError'' ''list index out of range'')
      | m # ms \<Rightarrow> Inr m)"

text \<open>
  \<^verbatim>\<open>get_ai_response\<close> of \<^verbatim>\<open>unified_app.py\<close>. Each branch returns what its handler
  returns; when no branch matches, control leaves the \<^verbatim>\<open>if\<close> and reaches the
  \<^verbatim>\<open>return\<close> of the content. The whole body stands in \<^verbatim>\<open>try ... except Exception\<close>.
\<close>

definition unified_get_ai_response :: "world \<Rightarrow> string \<Rightarrow> pyval eff" where
  "unified_get_ai_response w prompt =
     try_except
       (and_then (invoke (ChatComplete prompt) (chat_complete w prompt))
          (\<lambda>response. and_then (pure (first_choice response))
             (\<lambda>m. case tool_calls m of
                     Some (tool_call # others) \<Rightarrow>
                       and_then (pure (json_loads w (function_arguments tool_call)))
                         (\<lambda>function_args.
                            case map_of unified_branches (function_name tool_call) of
                              Some b \<Rightarrow>
                                and_then
                                  (call_handler (function_name tool_call) b w function_args)
                                  (\<lambda>result. ret (PStr result))
                            | None \<Rightarrow> ret (content m))
                   | _ \<Rightarrow> ret (content m))))
       (except_Exception (\<lambda>e. ret (PStr (''Error: '' @ str_exn e))))"

text \<open>
  \<^verbatim>\<open>get_ai_response\<close> of \<^verbatim>\<open>app.py\<close>. Each branch assigns \<^verbatim>\<open>result\<close>, which is read
  after the chain: when no branch matches, the read of the unbound local raises
  \<^verbatim>\<open>UnboundLocalError\<close>, a \<^verbatim>\<open>NameError\<close> (the text is the interpreter's). What the
  function prints is left out.
\<close>

definition unbound_result :: exn where
  "unbound_result =
     Exception ''UnboundLocalError''
       (''cannot access local variable '' @ quoted ''result''
          @ '' where it is not associated with a value'')"

definition app_get_ai_response :: "world \<Rightarrow> string \<Rightarrow> pyval eff" where
  "app_get_ai_response w prompt =
     try_except
       (and_then (invoke (ChatComplete prompt) (chat_complete w prompt))
          (\<lambda>response. and_then (pure (first_choice response))
             (\<lambda>m. case tool_calls m of
                     Some (tool_call # others) \<Rightarrow>
                       and_then (pure (json_loads w (function_arguments tool_call)))
                         (\<lambda>function_args.
                            case map_of app_branches (function_name tool_call) of
                              Some b \<Rightarrow>
                                and_then
                                  (call_handler (function_name tool_call) b w function_args)
                                  (\<lambda>result. ret (PStr result))
                            | None \<Rightarrow> raise unbound_result)
                   | _ \<Rightarrow> ret (content m))))
       (except_Exception (\<lambda>e. ret (PStr (''Error: '' @ str_exn e))))"

section \<open>The command loops\<close>

subsection \<open>String methods\<close>

text \<open>
  \<^verbatim>\<open>s.lower()\<close> on the ASCII letters. The loops compare the lowered input with ASCII
  literals only; no character outside ASCII lowers to a text that completes one of them.
\<close>

definition lower_char :: "char \<Rightarrow> char" where
  "lower_char c =
     (case map_of (zip ''ABCDEFGHIJKLMNOPQRSTUVWXYZ'' ''abcdefghijklmnopqrstuvwxyz'') c of
        None \<Rightarrow> c
      | Some d \<Rightarrow> d)"

definition py_lower :: "string \<Rightarrow> string" where
  "py_lower s = map lower_char s"

text \<open>
  White space, for \<^verbatim>\<open>s.strip()\<close> and \<^verbatim>\<open>s.split()\<close>: the characters for which
  \<^verbatim>\<open>str.isspace\<close> holds (U+0009 to U+000D, U+001C to U+0020, U+0085, U+00A0, U+1680, U+2000
  to U+200A, U+2028, U+2029, U+202F, U+205F, U+3000), each in UTF-8. No encoding is a prefix
  of another, and each begins with a byte that begins a character, so that matching one at
  either end of a text finds a character of the text.
\<close>

definition whitespace :: "string list" where
  "whitespace =
     [[CHR 0x09], [CHR 0x0A], [CHR 0x0B], [CHR 0x0C], [CHR 0x0D],
      [CHR 0x1C], [CHR 0x1D], [CHR 0x1E], [CHR 0x1F], [CHR 0x20],
      [CHR 0xC2, CHR 0x85], [CHR 0xC2, CHR 0xA0],
      [CHR 0xE1, CHR 0x9A, CHR 0x80],
      [CHR 0xE2, CHR 0x80, CHR 0x80], [CHR 0xE2, CHR 0x80, CHR 0x81],
      [CHR 0xE2, CHR 0x80, CHR 0x82], [CHR 0xE2, CHR 0x80, CHR 0x83],
      [CHR 0xE2, CHR 0x80, CHR 0x84], [CHR 0xE2, CHR 0x80, CHR 0x85],
      [CHR 0xE2, CHR 0x80, CHR 0x86], [CHR 0xE2, CHR 0x80, CHR 0x87],
      [CHR 0xE2, CHR 0x80, CHR 0x88], [CHR 0xE2, CHR 0x80, CHR 0x89],
      [CHR 0xE2, CHR 0x80, CHR 0x8A],
      [CHR 0xE2, CHR 0x80, CHR 0xA8], [CHR 0xE2, CHR 0x80, CHR 0xA9],
      [CHR 0xE2, CHR 0x80, CHR 0xAF],
      [CHR 0xE2, CHR 0x81, CHR 0x9F],
      [CHR 0xE3, CHR 0x80, CHR 0x80]]"

text \<open>The length of the one among \<open>seps\<close> that the text begins with; 0 if it begins with none.\<close>

definition leading :: "string list \<Rightarrow> string \<Rightarrow> nat" where
  "leading seps s = (case filter (\<lambda>sep. prefix sep s) seps of [] \<Rightarrow> 0 | sep # others \<Rightarrow> length sep)"

text \<open>
  Dropping from the front of a text every one of \<open>seps\<close> it begins with; \<open>k\<close> counts the
  bytes of a matched one still to be dropped.
\<close>

fun strip_front :: "string list \<Rightarrow> nat \<Rightarrow> string \<Rightarrow> string" where
  "strip_front seps k [] = []"
| "strip_front seps k (c # cs) =
     (if 0 < k then strip_front seps (k - 1) cs
      else if 0 < leading seps (c # cs) then strip_front seps (leading seps (c # cs) - 1) cs
      else c # cs)"

definition py_strip :: "string \<Rightarrow> string" where
  "py_strip s =
     rev (strip_front (map rev whitespace) 0 (rev (strip_front whitespace 0 s)))"

fun split_words :: "nat \<Rightarrow> string \<Rightarrow> string \<Rightarrow> string list" where
  "split_words k cur [] = (if cur = [] then [] else [rev cur])"
| "split_words k cur (c # cs) =
     (if 0 < k then split_words (k - 1) cur cs
      else if 0 < leading whitespace (c # cs)
      then (if cur = [] then split_words (leading whitespace (c # cs) - 1) [] cs
            else rev cur # split_words (leading whitespace (c # cs) - 1) [] cs)
      else split_words 0 (c # cur) cs)"

definition py_split_ws :: "string \<Rightarrow> string list" where
  "py_split_ws s = split_words 0 [] s"

text \<open>
  \<^verbatim>\<open>s.split(sep)\<close> and \<^verbatim>\<open>s.split(sep, maxsplit)\<close> for a separator that is not empty:
  \<open>k\<close> counts the characters of a matched separator still to be skipped, \<open>cur\<close> is the
  current piece, reversed, and \<open>m\<close> the number of splits still allowed.
\<close>

fun split_from :: "string \<Rightarrow> nat option \<Rightarrow> nat \<Rightarrow> string \<Rightarrow> string \<Rightarrow> string list" where
  "split_from sep m k cur [] = [rev cur]"
| "split_from sep m k cur (c # cs) =
     (if 0 < k then split_from sep m (k - 1) cur cs
      else if m \<noteq> Some 0 \<and> prefix sep (c # cs)
      then rev cur # split_from sep (map_option (\<lambda>n. n - 1) m) (length sep - 1) [] cs
      else split_from sep m 0 (c # cur) cs)"

definition py_split :: "string \<Rightarrow> string \<Rightarrow> nat option \<Rightarrow> string list" where
  "py_split s sep maxsplit = split_from sep maxsplit 0 [] s"

text \<open>\<^verbatim>\<open>s.replace(old, new)\<close> for an \<open>old\<close> that is not empty.\<close>

fun replace_from :: "string \<Rightarrow> string \<Rightarrow> nat \<Rightarrow> string \<Rightarrow> string" where
  "replace_from old new k [] = []"
| "replace_from old new k (c # cs) =
     (if 0 < k then replace_from old new (k - 1) cs
      else if prefix old (c # cs) then new @ replace_from old new (length old - 1) cs
      else c # replace_from old new 0 cs)"

definition py_replace :: "string \<Rightarrow> string \<Rightarrow> string \<Rightarrow> string" where
  "py_replace s old new = replace_from old new 0 s"

text \<open>\<^verbatim>\<open>xs[i]\<close>\<close>

definition item :: "'a list \<Rightarrow> nat \<Rightarrow> exn + 'a" where
  "item xs i =
     (if i < length xs then Inr (xs ! i)
      else Inl (Exception ''IndexError'' ''list index out of range''))"

subsection \<open>One turn\<close>

definition is_quit :: "string \<Rightarrow> bool" where
  "is_quit user_input = (py_lower user_input \<in> set [''quit'', ''exit'', ''q''])"

text \<open>
  The response of \<^verbatim>\<open>unified_app.py\<close> to a line that is no quit token: the chain of local
  commands, then the model. A bare \<^verbatim>\<open>except:\<close> answers every exception with the usage
  text.
\<close>

definition bare_except :: "string \<Rightarrow> exn \<Rightarrow> pyval eff option" where
  "bare_except usage e = Some (ret (PStr usage))"

definition as_response :: "string eff \<Rightarrow> pyval eff" where
  "as_response m = and_then m (\<lambda>s. ret (PStr s))"

definition unified_respond :: "world \<Rightarrow> string \<Rightarrow> pyval eff" where
  "unified_respond w user_input =
     (if py_lower user_input = ''list channels'' then
        as_response (slack_list_channels w (PInt 100))
      else if prefix ''send message'' (py_lower user_input) then
        (case py_split user_input '' to '' (Some 1) of
           [part0, part1] \<Rightarrow>
             as_response
               (slack_post_message w (PStr (py_strip part1))
                  (PStr (py_strip (py_replace part0 ''send message'' []))))
         | _ \<Rightarrow> ret (PStr ''Please use format: send message <text> to <channel>''))
      else if prefix ''reply'' (py_lower user_input) then
        try_except
          (and_then (pure (item (py_split user_input '' to thread '' (Some 1)) 1))
             (\<lambda>tail. let parts = py_split tail '' in '' None in
                and_then (pure (item parts 0))
                  (\<lambda>p0. and_then (pure (item parts 1))
                     (\<lambda>p1. and_then (pure (item (py_split user_input '' to thread '' None) 0))
                        (\<lambda>head.
                           as_response
                             (slack_reply_to_thread w (PStr (py_strip p1)) (PStr (py_strip p0))
                                (PStr (py_strip (py_replace head ''reply'' [])))))))))
          (bare_except
             ''Please use format: reply <text> to thread <thread_ts> in <channel>'')
      else if prefix ''add reaction'' (py_lower user_input) then
        try_except
          (and_then (pure (item (py_split user_input '' to message '' (Some 1)) 1))
             (\<lambda>tail. let parts = py_split tail '' in '' None in
                and_then (pure (item parts 0))
                  (\<lambda>p0. and_then (pure (item parts 1))
                     (\<lambda>p1. and_then (pure (item (py_split user_input '' to message '' None) 0))
                        (\<lambda>head.
                           as_response
                             (slack_add_reaction w (PStr (py_strip p1)) (PStr (py_strip p0))
                                (PStr (py_strip (py_replace head ''add reaction'' [])))))))))
          (bare_except
             ''Please use format: add reaction <emoji> to message <ts> in <channel>'')
      else if prefix ''show history'' (py_lower user_input) then
        try_except
          (let parts = py_split_ws (py_strip (py_replace user_input ''show history'' [])) in
             and_then (pure (item parts 0))
               (\<lambda>channel.
                  and_then
                    (if 1 < length parts
                     then and_then (pure (item parts 1)) (\<lambda>p1. pure (py_int w p1))
                     else ret 10)
                    (\<lambda>limit.
                       as_response (slack_get_channel_history w (PStr channel) (PInt limit)))))
          (bare_except ''Please use format: show history <channel> [limit]'')
      else unified_get_ai_response w user_input)"

text \<open>
  One iteration of a loop, after \<^verbatim>\<open>input\<close> has returned the line: the calls issued, the
  texts printed, and whether the loop goes on, is left by \<^verbatim>\<open>break\<close>, or is left by an
  exception.
\<close>

datatype step = Continue | Break | Abort exn

definition goodbye :: string where
  "goodbye = newline @ ''Goodbye!''"

text \<open>\<^verbatim>\<open>print("\n" + response)\<close>: only a string can be appended to a string.\<close>

definition unified_turn :: "world \<Rightarrow> string \<Rightarrow> call list \<times> string list \<times> step" where
  "unified_turn w user_input =
     (if is_quit user_input then ([], [goodbye], Break)
      else
        (case unified_respond w user_input of
           (t, Inl e) \<Rightarrow> (t, [], Abort e)
         | (t, Inr (PStr s)) \<Rightarrow> (t, [newline @ s], Continue)
         | (t, Inr v) \<Rightarrow>
             (t, [],
              Abort (Exception ''TypeError''
                (''can only concatenate str (not '' @ double_quoted (type_name v)
                   @ '') to str'')))))"

text \<open>
  \<^verbatim>\<open>app.py\<close> prints \<^verbatim>\<open>"\nAI: "\<close>, asks the dispatcher, and prints the lines of
  \<^verbatim>\<open>textwrap.wrap(response, width=70)\<close>, which fails on a response that is no string.
\<close>

definition app_turn :: "world \<Rightarrow> string \<Rightarrow> call list \<times> string list \<times> step" where
  "app_turn w user_input =
     (if is_quit user_input then ([], [goodbye], Break)
      else
        (case app_get_ai_response w user_input of
           (t, Inl e) \<Rightarrow> (t, [newline @ ''AI: ''], Abort e)
         | (t, Inr (PStr s)) \<Rightarrow> (t, (newline @ ''AI: '') # textwrap_wrap w s, Continue)
         | (t, Inr v) \<Rightarrow>
             (t, [newline @ ''AI: ''],
              Abort (Exception ''AttributeError''
                (quoted (type_name v) @ '' object has no attribute '' @ quoted ''expandtabs'')))))"

subsection \<open>The loops\<close>

text \<open>
  \<^verbatim>\<open>while True\<close> over the lines that \<^verbatim>\<open>input\<close> returns; at the end of the input
  \<^verbatim>\<open>input\<close> raises \<^verbatim>\<open>EOFError\<close>. The result is the calls issued, the texts printed and the
  exception that ended the loop, if one did. The banner printed before the loop is left out.
\<close>

definition end_of_input :: exn where
  "end_of_input = Exception ''EOFError'' ''EOF when reading a line''"

fun run_loop ::
  "(string \<Rightarrow> call list \<times> string list \<times> step) \<Rightarrow> string list
     \<Rightarrow> call list \<times> string list \<times> exn option" where
  "run_loop turn [] = ([], [], Some end_of_input)"
| "run_loop turn (user_input # lines) =
     (case turn user_input of
        (t, out, Break) \<Rightarrow> (t, out, None)
      | (t, out, Abort e) \<Rightarrow> (t, out, Some e)
      | (t, out, Continue) \<Rightarrow>
          (case run_loop turn lines of (t', out', r) \<Rightarrow> (t @ t', out @ out', r)))"

definition unified_main :: "world \<Rightarrow> string list \<Rightarrow> call list \<times> string list \<times> exn option" where
  "unified_main w lines = run_loop (unified_turn w) lines"

definition app_main :: "world \<Rightarrow> string list \<Rightarrow> call list \<times> string list \<times> exn option" where
  "app_main w lines = run_loop (app_turn w) lines"

section \<open>What the properties speak about\<close>

text \<open>The exception with which a call fails in an environment, if it fails.\<close>

definition failure :: "exn + 'a \<Rightarrow> exn option" where
  "failure r = (case r of Inl e \<Rightarrow> Some e | Inr x \<Rightarrow> None)"

fun raises :: "world \<Rightarrow> call \<Rightarrow> exn option" where
  "raises w (ChatComplete prompt) = failure (chat_complete w prompt)"
| "raises w (GhCreateRepo n d p) = failure (gh_create_repo w n d p)"
| "raises w (GhGetRepos u) = failure (gh_get_repos w u)"
| "raises w (GhGetRepo r) = failure (gh_get_repo w r)"
| "raises w (GhCreateIssue r t b) = failure (gh_create_issue w r t b)"
| "raises w (GhGetIssues r) = failure (gh_get_issues w r)"
| "raises w (GhCreateFile r f m c) = failure (gh_create_file w r f m c)"
| "raises w (OpenRead f) = failure (open_read w f)"
| "raises w (JiraCreateIssue k s d t) = failure (jira_create_issue w k s d t)"
| "raises w JiraProjects = failure (jira_projects w)"
| "raises w (ConfluenceCreatePage k t c) = failure (confluence_create_page w k t c)"
| "raises w ConfluenceGetAllSpaces = failure (confluence_get_all_spaces w)"
| "raises w (SlackConversationsOpen u) = failure (conversations_open w u)"
| "raises w (SlackChatPostMessage c ts t) = failure (chat_postMessage w c ts t)"
| "raises w (SlackFilesUpload c f) = failure (files_upload w c f)"
| "raises w (SlackConversationsReplies c ts) = failure (conversations_replies w c ts)"
| "raises w (SlackUsersList l) = failure (users_list w l)"
| "raises w (SlackUsersInfo u) = failure (users_info w u)"
| "raises w (SlackConversationsList l) = failure (conversations_list w l)"
| "raises w (SlackReactionsAdd c ts r) = failure (reactions_add w c ts r)"
| "raises w (SlackConversationsHistory c l) = failure (conversations_history w c l)"

text \<open>
  The handlers of \<^verbatim>\<open>unified_app.py\<close> with a clause \<^verbatim>\<open>except Exception\<close>; the others have
  \<^verbatim>\<open>except SlackApiError\<close> only.
\<close>

definition catches_every_exception :: "string list" where
  "catches_every_exception =
     [''create_repository'', ''list_repositories'', ''create_jira_issue'', ''list_jira_projects'',
      ''create_confluence_page'', ''list_confluence_spaces'', ''send_slack_message'',
      ''slack_post_message'']"

text \<open>
  The two handlers that answer a \<^verbatim>\<open>SlackApiError\<close> by \<^verbatim>\<open>e.response['error']\<close>, and the
  codes they have a text of their own for.
\<close>

definition answers_by_code :: "string list" where
  "answers_by_code = [''send_slack_message'', ''slack_post_message'']"

definition known_codes :: "string list" where
  "known_codes = [''channel_not_found'', ''not_in_channel'']"

text \<open>
  The exceptions that a handler of \<^verbatim>\<open>unified_app.py\<close> answers with a string: those its
  \<^verbatim>\<open>except\<close> clauses cover, but for the two handlers above a \<^verbatim>\<open>SlackApiError\<close> on which
  \<^verbatim>\<open>e.response['error']\<close> raises.
\<close>

definition caught :: "string \<Rightarrow> exn \<Rightarrow> bool" where
  "caught name e =
     (case e of
        SlackApiError msg (Value err) \<Rightarrow> True
      | SlackApiError msg (Raises cls m) \<Rightarrow> name \<notin> set answers_by_code
      | Exception cls msg \<Rightarrow> name \<in> set catches_every_exception)"

text \<open>
  What a handler of \<^verbatim>\<open>unified_app.py\<close> answers to such an exception: \<^verbatim>\<open>Error:\<close>, a space and
  the text of the exception; but the two handlers above answer a \<^verbatim>\<open>SlackApiError\<close> with a text
  that begins with \<^verbatim>\<open>Error:\<close> when its code is one they know, and else with
  \<^verbatim>\<open>Slack API Error:\<close>, a space and the code.
\<close>

definition unified_answer :: "world \<Rightarrow> string \<Rightarrow> exn \<Rightarrow> string \<Rightarrow> bool" where
  "unified_answer w name e s =
     (case e of
        SlackApiError msg (Value err) \<Rightarrow>
          (if name \<in> set answers_by_code
           then (if err \<in> set (map PStr known_codes) then prefix ''Error:'' s
                 else s = ''Slack API Error: '' @ py_str w err)
           else s = ''Error: '' @ msg)
      | SlackApiError msg (Raises cls m) \<Rightarrow>
          name \<notin> set answers_by_code \<and> s = ''Error: '' @ msg
      | Exception cls msg \<Rightarrow> s = ''Error: '' @ msg)"

text \<open>What \<^verbatim>\<open>app.py\<close>'s handlers put before the text of the exception.\<close>

definition app_error_prefix :: "(string \<times> string) list" where
  "app_error_prefix =
     [(''create_repository'', ''Error creating repository: ''),
      (''create_github_issue'', ''Error creating issue: ''),
      (''list_repository_issues'', ''Error listing issues: ''),
      (''list_repositories'', ''Error listing repositories: ''),
      (''upload_file'', ''Error uploading file: '')]"

text \<open>The signature behind a branch, and the number of branches with a name.\<close>

fun branch_params :: "branch \<Rightarrow> params" where
  "branch_params (Expand sig body) = sig"
| "branch_params (NoArgs f) = []"

text \<open>The handler that a branch calls, run with given values for its parameters.\<close>

fun handler_of :: "branch \<Rightarrow> world \<Rightarrow> (string \<Rightarrow> pyval) \<Rightarrow> string eff" where
  "handler_of (Expand sig body) w a = body w a"
| "handler_of (NoArgs f) w a = f w"

definition count_branches :: "string \<Rightarrow> (string \<times> branch) list \<Rightarrow> nat" where
  "count_branches name branches = length (filter (\<lambda>nb. fst nb = name) branches)"

text \<open>
  A catalog matches a chain of branches when each entry's name is the name of exactly one
  branch, and each name the entry declares required is a parameter without default of the
  signature behind that branch.
\<close>

definition catalog_matches :: "tool list \<Rightarrow> (string \<times> branch) list \<Rightarrow> bool" where
  "catalog_matches tools branches =
     (\<forall>t \<in> set tools.
        count_branches (tool_name t) branches = 1
        \<and> (\<forall>r \<in> set (tool_required t).
              case map_of branches (tool_name t) of
                None \<Rightarrow> False
              | Some b \<Rightarrow> (r, None) \<in> set (branch_params b)))"

text \<open>The lines that \<^verbatim>\<open>unified_app.py\<close> answers without the model.\<close>

definition is_local_command :: "string \<Rightarrow> bool" where
  "is_local_command user_input =
     (py_lower user_input = ''list channels''
      \<or> prefix ''send message'' (py_lower user_input)
      \<or> prefix ''reply'' (py_lower user_input)
      \<or> prefix ''add reaction'' (py_lower user_input)
      \<or> prefix ''show history'' (py_lower user_input))"

definition invokes_model :: "call list \<Rightarrow> bool" where
  "invokes_model t = list_ex is_model_call t"

text \<open>
  A computation is \<open>raising\<close> when a failing call among those it issued is the exception it
  raised: it did not go on after a call that failed.
\<close>

definition raising :: "world \<Rightarrow> 'a eff \<Rightarrow> bool" where
  "raising w m = (\<forall>c \<in> set (fst m). \<forall>e. raises w c = Some e \<longrightarrow> snd m = Inl e)"

text \<open>
  A computation \<open>answers\<close> when it returns a string; it is \<open>text_or_raise\<close> when whatever it
  returns is a string.
\<close>

definition answers :: "pyval eff \<Rightarrow> bool" where
  "answers m = (\<exists>t s. m = (t, Inr (PStr s)))"

definition text_or_raise :: "pyval eff \<Rightarrow> bool" where
  "text_or_raise m = (\<forall>v. snd m = Inr v \<longrightarrow> (\<exists>s. v = PStr s))"

subsection \<open>Sample environments\<close>

text \<open>
  \<open>sample_json_loads\<close> parses two texts and rejects every other; \<open>failing_world\<close> is an
  environment in which each call to a remote service, and each read of a file, raises the
  given exception, and the model answers as given; in \<open>sample_world\<close> the calls succeed.
\<close>

definition octocat_arguments :: string where
  "octocat_arguments =
     ''{'' @ double_quoted ''username'' @ '': '' @ double_quoted ''octocat'' @ ''}''"

definition sample_json_loads :: "string \<Rightarrow> exn + pyval" where
  "sample_json_loads s =
     (if s = octocat_arguments then Inr (PDict [(''username'', PStr ''octocat'')])
      else if s = ''{}'' then Inr (PDict [])
      else Inl (Exception ''JSONDecodeError'' ''Expecting value: line 1 column 1 (char 0)''))"

definition sample_py_int :: "string \<Rightarrow> exn + int" where
  "sample_py_int s =
     (if s = ''5'' then Inr 5
      else Inl (Exception ''ValueError'' ''invalid literal for int() with base 10''))"

definition failing_world :: "exn \<Rightarrow> exn + response \<Rightarrow> world" where
  "failing_world e model =
     \<lparr>chat_complete = (\<lambda>prompt. model),
      json_loads = sample_json_loads,
      py_repr = (\<lambda>v. ''<repr>''),
      py_int = sample_py_int,
      textwrap_wrap = (\<lambda>s. [s]),
      py_module = ''__main__'',
      open_read = (\<lambda>f. Inl e),
      gh_create_repo = (\<lambda>n d p. Inl e),
      gh_get_repos = (\<lambda>u. Inl e),
      gh_get_repo = (\<lambda>r. Inl e),
      gh_create_issue = (\<lambda>r t b. Inl e),
      gh_get_issues = (\<lambda>r. Inl e),
      gh_create_file = (\<lambda>r f m c. Inl e),
      jira_create_issue = (\<lambda>k s d t. Inl e),
      jira_projects = Inl e,
      confluence_create_page = (\<lambda>k t c. Inl e),
      confluence_get_all_spaces = Inl e,
      conversations_open = (\<lambda>u. Inl e),
      chat_postMessage = (\<lambda>c ts t. Inl e),
      files_upload = (\<lambda>c f. Inl e),
      conversations_replies = (\<lambda>c ts. Inl e),
      users_list = (\<lambda>l. Inl e),
      users_info = (\<lambda>u. Inl e),
      conversations_list = (\<lambda>l. Inl e),
      reactions_add = (\<lambda>c ts r. Inl e),
      conversations_history = (\<lambda>c l. Inl e)\<rparr>"

definition sample_world :: "exn + response \<Rightarrow> world" where
  "sample_world model =
     \<lparr>chat_complete = (\<lambda>prompt. model),
      json_loads = sample_json_loads,
      py_repr = (\<lambda>v. ''<repr>''),
      py_int = sample_py_int,
      textwrap_wrap = (\<lambda>s. [s]),
      py_module = ''__main__'',
      open_read = (\<lambda>f. Inr ''print(1)''),
      gh_create_repo = (\<lambda>n d p. Inr ''https://github.com/octocat/demo''),
      gh_get_repos = (\<lambda>u. Inr [(''hello'', Some ''first''), (''spoon'', None)]),
      gh_get_repo = (\<lambda>r. Inr ()),
      gh_create_issue = (\<lambda>r t b. Inr ''https://github.com/octocat/demo/issues/1''),
      gh_get_issues = (\<lambda>r. Inr [(''1'', ''first issue'')]),
      gh_create_file = (\<lambda>r f m c. Inr ()),
      jira_create_issue = (\<lambda>k s d t. Inr ''PROJ-1''),
      jira_projects = Inr [(''PROJ'', Some ''Project'')],
      confluence_create_page = (\<lambda>k t c. Inr ()),
      confluence_get_all_spaces = Inr [(''DOC'', ''Documents'')],
      conversations_open = (\<lambda>u. Inr (SlackResponse True None ''D1'')),
      chat_postMessage = (\<lambda>c ts t. Inr (SlackResponse True None ''1700000000.000100'')),
      files_upload = (\<lambda>c f. Inr ()),
      conversations_replies = (\<lambda>c ts. Inr (SlackResponse True None [])),
      users_list = (\<lambda>l. Inr (SlackResponse True None [(''ada'', ''U1'')])),
      users_info = (\<lambda>u. Inr (SlackResponse False (Some ''user_not_found'')
         \<lparr>real_name = None, display_name = None, email = None, title = None,
           status_text = None\<rparr>)),
      conversations_list = (\<lambda>l. Inr (SlackResponse True None [(''general'', ''C1'')])),
      reactions_add = (\<lambda>c ts r. Inr (SlackResponse True None ())),
      conversations_history = (\<lambda>c l. Inr (SlackResponse True None []))\<rparr>"

definition offline :: exn where
  "offline = Exception ''ConnectionError'' ''offline''"

definition ratelimited :: exn where
  "ratelimited =
     SlackApiError
       (''The request to the Slack API failed. (url: https://slack.com/api/chat.postMessage)''
          @ newline @ ''The server responded with: {'' @ quoted ''ok'' @ '': False, ''
          @ quoted ''error'' @ '': '' @ quoted ''ratelimited'' @ ''}'')
       (Value (PStr ''ratelimited''))"

text \<open>A \<^verbatim>\<open>SlackApiError\<close> whose response is a plain dict without the key \<^verbatim>\<open>error\<close>.\<close>

definition no_error_entry :: exn where
  "no_error_entry =
     SlackApiError ''Received a response in a non-JSON format''
       (Raises ''KeyError'' (quoted ''error''))"

text \<open>Model responses: plain text, and one or two tool calls.\<close>

definition text_reply :: "exn + response" where
  "text_reply = Inr (Response [Message None (PStr ''Hello!'')])"

definition tool_reply :: "tool_call list \<Rightarrow> exn + response" where
  "tool_reply calls = Inr (Response [Message (Some calls) (PStr [])])"

section \<open>Properties\<close>

lemmas eff_defs = ret_def raise_def pure_def invoke_def and_then_def try_except_def
  except_Exception_def except_SlackApiError_def

subsection \<open>The limit that reaches Slack\<close>

lemma slack_get_users_trace:
  "fst (slack_get_users w (PInt n)) = [SlackUsersList (PInt (min n 200))]"
  by (simp add: slack_get_users_def eff_defs min_def split: sum.splits exn.splits)

lemma slack_list_channels_trace:
  "fst (slack_list_channels w (PInt n)) = [SlackConversationsList (PInt (min n 200))]"
  by (simp add: slack_list_channels_def eff_defs min_def split: sum.splits exn.splits)

lemma slack_get_channel_history_trace:
  "fst (slack_get_channel_history w channel_id limit)
     = [SlackConversationsHistory channel_id limit]"
  by (simp add: slack_get_channel_history_def eff_defs split: sum.splits exn.splits)

text \<open>
  C10. For every integer \<open>n\<close>, \<^verbatim>\<open>slack_get_users\<close> and \<^verbatim>\<open>slack_list_channels\<close> issue
  exactly one call to the Slack client, with the limit \<open>min n 200\<close>, which is at most 200;
  \<^verbatim>\<open>slack_get_channel_history\<close> issues its call with the limit \<open>n\<close> itself.
\<close>

theorem limit_clamped_to_200:
  "fst (slack_get_users w (PInt n)) = [SlackUsersList (PInt (min n 200))]
   \<and> fst (slack_list_channels w (PInt n)) = [SlackConversationsList (PInt (min n 200))]
   \<and> min n 200 \<le> (200::int)
   \<and> fst (slack_get_channel_history w channel_id (PInt n))
       = [SlackConversationsHistory channel_id (PInt n)]"
  by (simp add: slack_get_users_trace slack_list_channels_trace slack_get_channel_history_trace)

text \<open>The history handler forwards a limit above 200 as it is.\<close>

lemma history_limit_unclamped:
  "fst (slack_get_channel_history (sample_world text_reply) (PStr ''C1'') (PInt 1000))
     = [SlackConversationsHistory (PStr ''C1'') (PInt 1000)]"
  by (rule slack_get_channel_history_trace)

subsection \<open>A response without tool call\<close>

text \<open>
  C5. When the first message of the model's response has no tool call (the field is absent,
  \<^verbatim>\<open>None\<close> or an empty list), both dispatchers return the content of that message as it
  is, having issued the call to the model only.
\<close>

theorem no_tool_call_returns_content:
  assumes "chat_complete w prompt = Inr resp"
    and "choices resp = m # ms"
    and "tool_calls m = None \<or> tool_calls m = Some []"
  shows "unified_get_ai_response w prompt = ([ChatComplete prompt], Inr (content m))
       \<and> app_get_ai_response w prompt = ([ChatComplete prompt], Inr (content m))"
  using assms
  by (auto simp: unified_get_ai_response_def app_get_ai_response_def first_choice_def eff_defs)

theorem no_tool_call_returns_content_witness:
  "chat_complete (sample_world text_reply) ''hi''
     = Inr (Response [Message None (PStr ''Hello!'')])
   \<and> unified_get_ai_response (sample_world text_reply) ''hi''
       = ([ChatComplete ''hi''], Inr (PStr ''Hello!''))
   \<and> app_get_ai_response (sample_world text_reply) ''hi''
       = ([ChatComplete ''hi''], Inr (PStr ''Hello!''))"
proof -
  have h: "chat_complete (sample_world text_reply) ''hi''
             = Inr (Response [Message None (PStr ''Hello!'')])"
    by (simp add: sample_world_def text_reply_def)
  from no_tool_call_returns_content [OF h, of "Message None (PStr ''Hello!'')" "[]"]
  show ?thesis using h by simp
qed

subsection \<open>Leaving the loop\<close>

lemma run_loop_quit:
  "turn u = ([], out, Break) \<Longrightarrow> run_loop turn (pre @ u # rest) = run_loop turn (pre @ [u])"
  by (induction pre) (auto split: prod.splits step.splits)

text \<open>
  C7. On a line whose lower-case form is \<^verbatim>\<open>quit\<close>, \<^verbatim>\<open>exit\<close> or \<^verbatim>\<open>q\<close>, the turn of either
  loop issues no call at all, prints the farewell and leaves the loop; the loop ends there
  without an exception, and the lines after it are never read.
\<close>

theorem quit_ends_loop:
  assumes "is_quit u"
  shows "unified_turn w u = ([], [goodbye], Break) \<and> app_turn w u = ([], [goodbye], Break)
     \<and> unified_main w (u # rest) = ([], [goodbye], None)
     \<and> app_main w (u # rest) = ([], [goodbye], None)
     \<and> unified_main w (pre @ u # rest) = unified_main w (pre @ [u])
     \<and> app_main w (pre @ u # rest) = app_main w (pre @ [u])"
proof -
  have u: "unified_turn w u = ([], [goodbye], Break)"
    using assms by (simp add: unified_turn_def)
  have a: "app_turn w u = ([], [goodbye], Break)"
    using assms by (simp add: app_turn_def)
  have "unified_main w (pre @ u # rest) = unified_main w (pre @ [u])"
    unfolding unified_main_def using u by (rule run_loop_quit [where turn = "unified_turn w"])
  moreover have "app_main w (pre @ u # rest) = app_main w (pre @ [u])"
    unfolding app_main_def using a by (rule run_loop_quit [where turn = "app_turn w"])
  ultimately show ?thesis
    using u a by (simp add: unified_main_def app_main_def)
qed

theorem quit_ends_loop_witness:
  "is_quit ''Quit'' \<and> is_quit ''EXIT'' \<and> is_quit ''q''
   \<and> unified_main (sample_world text_reply) [''Quit'', ''list channels''] = ([], [goodbye], None)
   \<and> app_main (sample_world text_reply) [''Quit'', ''hello''] = ([], [goodbye], None)"
proof -
  have h: "is_quit ''Quit''"
    by (simp add: is_quit_def py_lower_def lower_char_def)
  have "is_quit ''EXIT''" and "is_quit ''q''"
    by (simp_all add: is_quit_def py_lower_def lower_char_def)
  with h quit_ends_loop [OF h, of "sample_world text_reply" "[''list channels'']" "[]"]
    quit_ends_loop [OF h, of "sample_world text_reply" "[''hello'']" "[]"]
  show ?thesis by simp
qed

subsection \<open>Handlers and the exceptions of their calls\<close>

text \<open>
  The combinators keep \<open>raising\<close>, so every \<^verbatim>\<open>try\<close> body of a handler is \<open>raising\<close>: when a
  call it issued fails, the body raised that exception, and the \<^verbatim>\<open>except\<close> clauses decide
  the result.
\<close>

lemma raising_ret: "raising w (ret x)"
  by (simp add: raising_def ret_def)

lemma raising_raise: "raising w (raise e)"
  by (simp add: raising_def raise_def)

lemma raising_pure: "raising w (pure r)"
  by (simp add: raising_def pure_def)

lemma raising_invoke: "raises w c = failure r \<Longrightarrow> raising w (invoke c r)"
  by (cases r) (simp_all add: raising_def invoke_def failure_def)

lemma raising_and_then:
  assumes "raising w m" and "\<And>x. raising w (f x)"
  shows "raising w (and_then m f)"
proof (cases m)
  case (Pair t0 r0)
  show ?thesis
  proof (cases r0)
    case (Inl e0)
    with Pair assms(1) show ?thesis by (simp add: raising_def and_then_def)
  next
    case (Inr x)
    obtain t1 r1 where f: "f x = (t1, r1)" by (cases "f x")
    from assms(1) Pair Inr have "\<forall>c \<in> set t0. raises w c = None"
      by (auto simp: raising_def)
    moreover from assms(2) [of x] f
    have "\<forall>c \<in> set t1. \<forall>e. raises w c = Some e \<longrightarrow> r1 = Inl e"
      by (simp add: raising_def)
    ultimately show ?thesis using Pair Inr f
      by (auto simp: raising_def and_then_def)
  qed
qed

lemma raising_nil: "raising w ([], r)"
  by (simp add: raising_def)

lemma raising_if: "raising w a \<Longrightarrow> raising w b \<Longrightarrow> raising w (if x then a else b)"
  by simp

lemmas raising_intros = raising_and_then raising_invoke raising_ret raising_raise raising_pure
  raising_if raising_nil

lemma try_except_answer:
  assumes run: "try_except m h = (t, r)"
    and m: "raising w m"
    and c: "c \<in> set t" "raises w c = Some e"
    and quiet: "\<And>e0 a. h e0 = Some a \<Longrightarrow> fst a = []"
    and answer: "\<exists>s. h e = Some ([], Inr s) \<and> P s"
  shows "\<exists>s. r = Inr s \<and> P s"
proof (cases m)
  case (Pair t0 r0)
  have t: "t = t0"
  proof (cases r0)
    case (Inr x)
    with run Pair show ?thesis by (simp add: try_except_def)
  next
    case (Inl e0)
    show ?thesis
    proof (cases "h e0")
      case None
      with run Pair Inl show ?thesis by (simp add: try_except_def)
    next
      case (Some a)
      with quiet have "fst a = []" by blast
      with run Pair Inl Some show ?thesis by (cases a) (simp add: try_except_def)
    qed
  qed
  with m c Pair have r0: "r0 = Inl e" by (auto simp: raising_def)
  from answer obtain s where "h e = Some ([], Inr s)" and "P s" by blast
  with run Pair r0 show ?thesis by (auto simp: try_except_def)
qed

lemma except_Exception_quiet: "except_Exception (\<lambda>e. ret (k e)) e0 = Some a \<Longrightarrow> fst a = []"
  by (auto simp: except_Exception_def ret_def)

lemma except_SlackApiError_quiet:
  "except_SlackApiError (\<lambda>e. ret (k e)) e0 = Some a \<Longrightarrow> fst a = []"
  by (cases e0) (auto simp: except_SlackApiError_def ret_def)

lemma send_slack_message_except_quiet:
  "send_slack_message_except w e = Some a \<Longrightarrow> fst a = []"
  by (cases e)
     (auto simp: send_slack_message_except_def ret_def raise_def split: lookup.splits)

lemma slack_post_message_except_quiet:
  "slack_post_message_except w e = Some a \<Longrightarrow> fst a = []"
  by (cases e)
     (auto simp: slack_post_message_except_def ret_def raise_def split: lookup.splits)

lemmas except_quiet = except_Exception_quiet except_SlackApiError_quiet
  send_slack_message_except_quiet slack_post_message_except_quiet

lemma except_Exception_answer:
  "name \<notin> set answers_by_code
     \<Longrightarrow> \<exists>s. except_Exception (\<lambda>e. ret (''Error: '' @ str_exn e)) e = Some ([], Inr s)
            \<and> unified_answer w name e s"
  by (cases e)
     (simp_all add: except_Exception_def ret_def unified_answer_def split: lookup.splits)

lemma except_SlackApiError_answer:
  "caught name e \<Longrightarrow> name \<notin> set catches_every_exception \<Longrightarrow> name \<notin> set answers_by_code
     \<Longrightarrow> \<exists>s. except_SlackApiError (\<lambda>e. ret (''Error: '' @ str_exn e)) e = Some ([], Inr s)
            \<and> unified_answer w name e s"
  by (cases e)
     (simp_all add: caught_def except_SlackApiError_def ret_def unified_answer_def
        split: lookup.splits)

lemma send_slack_message_except_answer:
  "caught ''send_slack_message'' e
     \<Longrightarrow> \<exists>s. send_slack_message_except w e = Some ([], Inr s)
            \<and> unified_answer w ''send_slack_message'' e s"
  by (cases e)
     (auto simp: send_slack_message_except_def unified_answer_def caught_def answers_by_code_def
        known_codes_def ret_def split: lookup.splits)

lemma slack_post_message_except_answer:
  "caught ''slack_post_message'' e
     \<Longrightarrow> \<exists>s. slack_post_message_except w e = Some ([], Inr s)
            \<and> unified_answer w ''slack_post_message'' e s"
  by (cases e)
     (auto simp: slack_post_message_except_def unified_answer_def caught_def answers_by_code_def
        known_codes_def ret_def quoted_def split: lookup.splits)

lemma unified_create_repository_raise:
  assumes "unified_create_repository w n d p = (t, r)"
    and "c \<in> set t" and "raises w c = Some e" and "caught ''create_repository'' e"
  shows "\<exists>s. r = Inr s \<and> unified_answer w ''create_repository'' e s"
  using assms(1) unfolding unified_create_repository_def
  apply (rule try_except_answer [where w = w and c = c and e = e])
      apply (auto intro!: raising_intros simp: Let_def)[1]
     apply (rule assms)
    apply (rule assms)
   apply (erule except_quiet)
  apply (rule except_Exception_answer)
  apply (simp add: answers_by_code_def)
  done

lemma unified_list_repositories_raise:
  assumes "unified_list_repositories w u = (t, r)"
    and "c \<in> set t" and "raises w c = Some e" and "caught ''list_repositories'' e"
  shows "\<exists>s. r = Inr s \<and> unified_answer w ''list_repositories'' e s"
  using assms(1) unfolding unified_list_repositories_def
  apply (rule try_except_answer [where w = w and c = c and e = e])
      apply (auto intro!: raising_intros simp: Let_def)[1]
     apply (rule assms)
    apply (rule assms)
   apply (erule except_quiet)
  apply (rule except_Exception_answer)
  apply (simp add: answers_by_code_def)
  done

lemma create_jira_issue_raise:
  assumes "create_jira_issue w k s d i = (t, r)"
    and "c \<in> set t" and "raises w c = Some e" and "caught ''create_jira_issue'' e"
  shows "\<exists>s. r = Inr s \<and> unified_answer w ''create_jira_issue'' e s"
  using assms(1) unfolding create_jira_issue_def
  apply (rule try_except_answer [where w = w and c = c and e = e])
      apply (auto intro!: raising_intros simp: Let_def)[1]
     apply (rule assms)
    apply (rule assms)
   apply (erule except_quiet)
  apply (rule except_Exception_answer)
  apply (simp add: answers_by_code_def)
  done

lemma list_jira_projects_raise:
  assumes "list_jira_projects w = (t, r)"
    and "c \<in> set t" and "raises w c = Some e" and "caught ''list_jira_projects'' e"
  shows "\<exists>s. r = Inr s \<and> unified_answer w ''list_jira_projects'' e s"
  using assms(1) unfolding list_jira_projects_def
  apply (rule try_except_answer [where w = w and c = c and e = e])
      apply (auto intro!: raising_intros simp: Let_def)[1]
     apply (rule assms)
    apply (rule assms)
   apply (erule except_quiet)
  apply (rule except_Exception_answer)
  apply (simp add: answers_by_code_def)
  done

lemma create_confluence_page_raise:
  assumes "create_confluence_page w k s d = (t, r)"
    and "c \<in> set t" and "raises w c = Some e" and "caught ''create_confluence_page'' e"
  shows "\<exists>s. r = Inr s \<and> unified_answer w ''create_confluence_page'' e s"
  using assms(1) unfolding create_confluence_page_def
  apply (rule try_except_answer [where w = w and c = c and e = e])
      apply (auto intro!: raising_intros simp: Let_def)[1]
     apply (rule assms)
    apply (rule assms)
   apply (erule except_quiet)
  apply (rule except_Exception_answer)
  apply (simp add: answers_by_code_def)
  done

lemma list_confluence_spaces_raise:
  assumes "list_confluence_spaces w = (t, r)"
    and "c \<in> set t" and "raises w c = Some e" and "caught ''list_confluence_spaces'' e"
  shows "\<exists>s. r = Inr s \<and> unified_answer w ''list_confluence_spaces'' e s"
  using assms(1) unfolding list_confluence_spaces_def
  apply (rule try_except_answer [where w = w and c = c and e = e])
      apply (auto intro!: raising_intros simp: Let_def)[1]
     apply (rule assms)
    apply (rule assms)
   apply (erule except_quiet)
  apply (rule except_Exception_answer)
  apply (simp add: answers_by_code_def)
  done

lemma send_slack_message_raise:
  assumes "send_slack_message w ch tx = (t, r)"
    and "c \<in> set t" and "raises w c = Some e" and "caught ''send_slack_message'' e"
  shows "\<exists>s. r = Inr s \<and> unified_answer w ''send_slack_message'' e s"
  using assms(1) unfolding send_slack_message_def
  apply (rule try_except_answer [where w = w and c = c and e = e])
      apply (auto intro!: raising_intros simp: Let_def)[1]
     apply (rule assms)
    apply (rule assms)
   apply (erule except_quiet)
  apply (rule send_slack_message_except_answer [OF assms(4)])
  done

lemma upload_file_to_slack_raise:
  assumes "upload_file_to_slack w ch f = (t, r)"
    and "c \<in> set t" and "raises w c = Some e" and "caught ''upload_file_to_slack'' e"
  shows "\<exists>s. r = Inr s \<and> unified_answer w ''upload_file_to_slack'' e s"
  using assms(1) unfolding upload_file_to_slack_def
  apply (rule try_except_answer [where w = w and c = c and e = e])
      apply (auto intro!: raising_intros simp: Let_def)[1]
     apply (rule assms)
    apply (rule assms)
   apply (erule except_quiet)
  apply (rule except_SlackApiError_answer [OF assms(4)])
   apply (simp add: catches_every_exception_def)
  apply (simp add: answers_by_code_def)
  done

lemma slack_get_thread_replies_raise:
  assumes "slack_get_thread_replies w ch ts = (t, r)"
    and "c \<in> set t" and "raises w c = Some e" and "caught ''slack_get_thread_replies'' e"
  shows "\<exists>s. r = Inr s \<and> unified_answer w ''slack_get_thread_replies'' e s"
  using assms(1) unfolding slack_get_thread_replies_def
  apply (rule try_except_answer [where w = w and c = c and e = e])
      apply (auto intro!: raising_intros simp: Let_def)[1]
     apply (rule assms)
    apply (rule assms)
   apply (erule except_quiet)
  apply (rule except_SlackApiError_answer [OF assms(4)])
   apply (simp add: catches_every_exception_def)
  apply (simp add: answers_by_code_def)
  done

lemma slack_get_users_raise:
  assumes "slack_get_users w l = (t, r)"
    and "c \<in> set t" and "raises w c = Some e" and "caught ''slack_get_users'' e"
  shows "\<exists>s. r = Inr s \<and> unified_answer w ''slack_get_users'' e s"
  using assms(1) unfolding slack_get_users_def
  apply (rule try_except_answer [where w = w and c = c and e = e])
      apply (auto intro!: raising_intros simp: Let_def)[1]
     apply (rule assms)
    apply (rule assms)
   apply (erule except_quiet)
  apply (rule except_SlackApiError_answer [OF assms(4)])
   apply (simp add: catches_every_exception_def)
  apply (simp add: answers_by_code_def)
  done

lemma slack_get_user_profile_raise:
  assumes "slack_get_user_profile w u = (t, r)"
    and "c \<in> set t" and "raises w c = Some e" and "caught ''slack_get_user_profile'' e"
  shows "\<exists>s. r = Inr s \<and> unified_answer w ''slack_get_user_profile'' e s"
  using assms(1) unfolding slack_get_user_profile_def
  apply (rule try_except_answer [where w = w and c = c and e = e])
      apply (auto intro!: raising_intros simp: Let_def)[1]
     apply (rule assms)
    apply (rule assms)
   apply (erule except_quiet)
  apply (rule except_SlackApiError_answer [OF assms(4)])
   apply (simp add: catches_every_exception_def)
  apply (simp add: answers_by_code_def)
  done

lemma slack_list_channels_raise:
  assumes "slack_list_channels w l = (t, r)"
    and "c \<in> set t" and "raises w c = Some e" and "caught ''slack_list_channels'' e"
  shows "\<exists>s. r = Inr s \<and> unified_answer w ''slack_list_channels'' e s"
  using assms(1) unfolding slack_list_channels_def
  apply (rule try_except_answer [where w = w and c = c and e = e])
      apply (auto intro!: raising_intros simp: Let_def)[1]
     apply (rule assms)
    apply (rule assms)
   apply (erule except_quiet)
  apply (rule except_SlackApiError_answer [OF assms(4)])
   apply (simp add: catches_every_exception_def)
  apply (simp add: answers_by_code_def)
  done

lemma slack_post_message_raise:
  assumes "slack_post_message w ch tx = (t, r)"
    and "c \<in> set t" and "raises w c = Some e" and "caught ''slack_post_message'' e"
  shows "\<exists>s. r = Inr s \<and> unified_answer w ''slack_post_message'' e s"
  using assms(1) unfolding slack_post_message_def
  apply (rule try_except_answer [where w = w and c = c and e = e])
      apply (auto intro!: raising_intros simp: Let_def)[1]
     apply (rule assms)
    apply (rule assms)
   apply (erule except_quiet)
  apply (rule slack_post_message_except_answer [OF assms(4)])
  done

lemma slack_reply_to_thread_raise:
  assumes "slack_reply_to_thread w ch ts tx = (t, r)"
    and "c \<in> set t" and "raises w c = Some e" and "caught ''slack_reply_to_thread'' e"
  shows "\<exists>s. r = Inr s \<and> unified_answer w ''slack_reply_to_thread'' e s"
  using assms(1) unfolding slack_reply_to_thread_def
  apply (rule try_except_answer [where w = w and c = c and e = e])
      apply (auto intro!: raising_intros simp: Let_def)[1]
     apply (rule assms)
    apply (rule assms)
   apply (erule except_quiet)
  apply (rule except_SlackApiError_answer [OF assms(4)])
   apply (simp add: catches_every_exception_def)
  apply (simp add: answers_by_code_def)
  done

lemma slack_add_reaction_raise:
  assumes "slack_add_reaction w ch ts rn = (t, r)"
    and "c \<in> set t" and "raises w c = Some e" and "caught ''slack_add_reaction'' e"
  shows "\<exists>s. r = Inr s \<and> unified_answer w ''slack_add_reaction'' e s"
  using assms(1) unfolding slack_add_reaction_def
  apply (rule try_except_answer [where w = w and c = c and e = e])
      apply (auto intro!: raising_intros simp: Let_def)[1]
     apply (rule assms)
    apply (rule assms)
   apply (erule except_quiet)
  apply (rule except_SlackApiError_answer [OF assms(4)])
   apply (simp add: catches_every_exception_def)
  apply (simp add: answers_by_code_def)
  done

lemma slack_get_channel_history_raise:
  assumes "slack_get_channel_history w ch l = (t, r)"
    and "c \<in> set t" and "raises w c = Some e" and "caught ''slack_get_channel_history'' e"
  shows "\<exists>s. r = Inr s \<and> unified_answer w ''slack_get_channel_history'' e s"
  using assms(1) unfolding slack_get_channel_history_def
  apply (rule try_except_answer [where w = w and c = c and e = e])
      apply (auto intro!: raising_intros simp: Let_def)[1]
     apply (rule assms)
    apply (rule assms)
   apply (erule except_quiet)
  apply (rule except_SlackApiError_answer [OF assms(4)])
   apply (simp add: catches_every_exception_def)
  apply (simp add: answers_by_code_def)
  done

lemma app_except_answer:
  "\<exists>s. except_Exception (\<lambda>e. ret (pre @ str_exn e)) e = Some ([], Inr s) \<and> s = pre @ str_exn e"
  by (simp add: except_Exception_def ret_def)

lemma app_create_repository_raise:
  assumes "app_create_repository w n d p = (t, r)" and "c \<in> set t" and "raises w c = Some e"
  shows "\<exists>s. r = Inr s \<and> s = ''Error creating repository: '' @ str_exn e"
  using assms(1) unfolding app_create_repository_def
  apply (rule try_except_answer [where w = w and c = c and e = e])
      apply (auto intro!: raising_intros simp: Let_def)[1]
     apply (rule assms)
    apply (rule assms)
   apply (erule except_quiet)
  apply (rule app_except_answer)
  done

lemma create_github_issue_raise:
  assumes "create_github_issue w rn ti bo = (t, r)" and "c \<in> set t" and "raises w c = Some e"
  shows "\<exists>s. r = Inr s \<and> s = ''Error creating issue: '' @ str_exn e"
  using assms(1) unfolding create_github_issue_def
  apply (rule try_except_answer [where w = w and c = c and e = e])
      apply (auto intro!: raising_intros simp: Let_def)[1]
     apply (rule assms)
    apply (rule assms)
   apply (erule except_quiet)
  apply (rule app_except_answer)
  done

lemma list_repository_issues_raise:
  assumes "list_repository_issues w rn = (t, r)" and "c \<in> set t" and "raises w c = Some e"
  shows "\<exists>s. r = Inr s \<and> s = ''Error listing issues: '' @ str_exn e"
  using assms(1) unfolding list_repository_issues_def
  apply (rule try_except_answer [where w = w and c = c and e = e])
      apply (auto intro!: raising_intros simp: Let_def)[1]
     apply (rule assms)
    apply (rule assms)
   apply (erule except_quiet)
  apply (rule app_except_answer)
  done

lemma app_list_repositories_raise:
  assumes "app_list_repositories w u = (t, r)" and "c \<in> set t" and "raises w c = Some e"
  shows "\<exists>s. r = Inr s \<and> s = ''Error listing repositories: '' @ str_exn e"
  using assms(1) unfolding app_list_repositories_def
  apply (rule try_except_answer [where w = w and c = c and e = e])
      apply (auto intro!: raising_intros simp: Let_def)[1]
     apply (rule assms)
    apply (rule assms)
   apply (erule except_quiet)
  apply (rule app_except_answer)
  done

lemma upload_file_raise:
  assumes "upload_file w rn fp cm = (t, r)" and "c \<in> set t" and "raises w c = Some e"
  shows "\<exists>s. r = Inr s \<and> s = ''Error uploading file: '' @ str_exn e"
  using assms(1) unfolding upload_file_def
  apply (rule try_except_answer [where w = w and c = c and e = e])
      apply (auto intro!: raising_intros simp: Let_def)[1]
     apply (rule assms)
    apply (rule assms)
   apply (erule except_quiet)
  apply (rule app_except_answer)
  done

lemmas unified_raise = unified_create_repository_raise unified_list_repositories_raise
  create_jira_issue_raise list_jira_projects_raise create_confluence_page_raise
  list_confluence_spaces_raise send_slack_message_raise upload_file_to_slack_raise
  slack_get_thread_replies_raise slack_get_users_raise slack_get_user_profile_raise
  slack_list_channels_raise slack_post_message_raise slack_reply_to_thread_raise
  slack_add_reaction_raise slack_get_channel_history_raise

lemmas app_raise = app_create_repository_raise create_github_issue_raise
  list_repository_issues_raise app_list_repositories_raise upload_file_raise

lemma unified_handlers_answer:
  assumes "(name, b) \<in> set unified_branches" and "handler_of b w a = (t, r)"
    and "c \<in> set t" and "raises w c = Some e" and "caught name e"
  shows "\<exists>s. r = Inr s \<and> unified_answer w name e s"
  using assms unfolding unified_branches_def
  apply (simp only: list.set insert_iff empty_iff prod.inject)
  apply (elim disjE conjE FalseE)
  apply (simp_all only: handler_of.simps)
  apply (erule (3) unified_raise)+
  done

lemma app_handlers_answer:
  assumes "(name, b) \<in> set app_branches" and "handler_of b w a = (t, r)"
    and "c \<in> set t" and "raises w c = Some e"
  shows "\<exists>pre. map_of app_error_prefix name = Some pre \<and> prefix ''Error '' pre
           \<and> \<not> prefix ''Error:'' pre \<and> r = Inr (pre @ str_exn e)"
  using assms unfolding app_branches_def
  apply (simp only: list.set insert_iff empty_iff prod.inject)
  apply (elim disjE conjE FalseE)
  apply (simp_all only: handler_of.simps)
  apply (auto dest: app_raise simp: app_error_prefix_def)
  done

text \<open>
  C1, as the code has it. Take any handler (the handler behind any branch of either
  dispatcher, run with any values for its parameters) and suppose a call it issued fails with
  the exception \<open>e\<close>. In \<^verbatim>\<open>unified_app.py\<close>, if the handler's \<^verbatim>\<open>except\<close> clauses cover \<open>e\<close>
  (every exception for the GitHub, Jira and Confluence handlers, \<^verbatim>\<open>send_slack_message\<close> and
  \<^verbatim>\<open>slack_post_message\<close>; a \<^verbatim>\<open>SlackApiError\<close> for the other Slack handlers) and, for
  \<^verbatim>\<open>send_slack_message\<close> and \<^verbatim>\<open>slack_post_message\<close> on a \<^verbatim>\<open>SlackApiError\<close>, the response has
  an entry \<^verbatim>\<open>error\<close>, the handler returns a string and raises nothing. The string is
  \<^verbatim>\<open>Error:\<close>, a space and the text of \<open>e\<close>; but these two handlers answer a
  \<^verbatim>\<open>SlackApiError\<close> by its code: with a text that begins with \<^verbatim>\<open>Error:\<close> for
  \<^verbatim>\<open>channel_not_found\<close> and \<^verbatim>\<open>not_in_channel\<close>, and with \<^verbatim>\<open>Slack API Error:\<close>, a space and
  the code for any other. In \<^verbatim>\<open>app.py\<close> every handler returns a string that begins with
  \<^verbatim>\<open>Error\<close>, a space and the name of the operation, then the text of the exception; it does
  not begin with \<^verbatim>\<open>Error:\<close>.
\<close>

theorem handlers_answer_caught_exceptions:
  "(\<forall>name b w a t r c e.
      (name, b) \<in> set unified_branches \<longrightarrow> handler_of b w a = (t, r) \<longrightarrow> c \<in> set t
        \<longrightarrow> raises w c = Some e \<longrightarrow> caught name e
        \<longrightarrow> (\<exists>s. r = Inr s \<and> unified_answer w name e s))
   \<and> (\<forall>name b w a t r c e.
      (name, b) \<in> set app_branches \<longrightarrow> handler_of b w a = (t, r) \<longrightarrow> c \<in> set t
        \<longrightarrow> raises w c = Some e
        \<longrightarrow> (\<exists>pre. map_of app_error_prefix name = Some pre \<and> prefix ''Error '' pre
               \<and> \<not> prefix ''Error:'' pre \<and> r = Inr (pre @ str_exn e)))"
proof (intro conjI allI impI)
  fix name b w a t r c e
  assume "(name, b) \<in> set unified_branches" and "handler_of b w a = (t, r)" and "c \<in> set t"
    and "raises w c = Some e" and "caught name e"
  then show "\<exists>s. r = Inr s \<and> unified_answer w name e s"
    by (rule unified_handlers_answer)
next
  fix name b w a t r c e
  assume "(name, b) \<in> set app_branches" and "handler_of b w a = (t, r)" and "c \<in> set t"
    and "raises w c = Some e"
  then show "\<exists>pre. map_of app_error_prefix name = Some pre \<and> prefix ''Error '' pre
           \<and> \<not> prefix ''Error:'' pre \<and> r = Inr (pre @ str_exn e)"
    by (rule app_handlers_answer)
qed

text \<open>
  C1 as it was stated fails: with GitHub out of reach, \<^verbatim>\<open>create_repository\<close> of \<^verbatim>\<open>app.py\<close>
  returns a text that begins with \<^verbatim>\<open>Error creating repository:\<close>, and on a rate-limited
  Slack \<^verbatim>\<open>send_slack_message\<close> returns \<^verbatim>\<open>Slack API Error: ratelimited\<close>; neither begins with
  \<^verbatim>\<open>Error:\<close>.
\<close>

theorem handlers_error_prefix_counterexample:
  "app_create_repository (failing_world offline text_reply) (PStr ''demo'') (PStr []) (PBool False)
     = ([GhCreateRepo (PStr ''demo'') (PStr []) (PBool False)],
        Inr ''Error creating repository: offline'')
   \<and> raises (failing_world offline text_reply) (GhCreateRepo (PStr ''demo'') (PStr []) (PBool False))
       = Some offline
   \<and> \<not> prefix ''Error:'' ''Error creating repository: offline''
   \<and> send_slack_message (failing_world ratelimited text_reply) (PStr ''C1'') (PStr ''hi'')
       = ([SlackChatPostMessage (PStr ''C1'') None (PStr ''hi'')],
          Inr ''Slack API Error: ratelimited'')
   \<and> raises (failing_world ratelimited text_reply)
         (SlackChatPostMessage (PStr ''C1'') None (PStr ''hi'')) = Some ratelimited
   \<and> \<not> prefix ''Error:'' ''Slack API Error: ratelimited''"
  by (simp add: app_create_repository_def send_slack_message_def send_slack_message_except_def
        failing_world_def offline_def ratelimited_def eff_defs failure_def)

text \<open>
  A handler whose only clause is \<^verbatim>\<open>except SlackApiError\<close> lets any other exception of its
  call through.
\<close>

lemma slack_get_users_propagates:
  "slack_get_users (failing_world offline text_reply) (PInt 10)
     = ([SlackUsersList (PInt 10)], Inl offline)"
  by (simp add: slack_get_users_def failing_world_def offline_def eff_defs)

text \<open>
  A \<^verbatim>\<open>SlackApiError\<close> whose response has no entry \<^verbatim>\<open>error\<close> leaves \<^verbatim>\<open>send_slack_message\<close> and
  \<^verbatim>\<open>slack_post_message\<close> as the \<^verbatim>\<open>KeyError\<close> of the subscript in their \<^verbatim>\<open>except\<close> clause.
\<close>

lemma no_error_entry_propagates:
  "send_slack_message (failing_world no_error_entry text_reply) (PStr ''C1'') (PStr ''hi'')
     = ([SlackChatPostMessage (PStr ''C1'') None (PStr ''hi'')],
        Inl (Exception ''KeyError'' (quoted ''error'')))
   \<and> slack_post_message (failing_world no_error_entry text_reply) (PStr ''C1'') (PStr ''hi'')
     = ([SlackChatPostMessage (PStr ''C1'') None (PStr ''hi'')],
        Inl (Exception ''KeyError'' (quoted ''error'')))"
  by (simp add: send_slack_message_def send_slack_message_except_def slack_post_message_def
        slack_post_message_except_def failing_world_def no_error_entry_def eff_defs)

theorem handlers_answer_caught_exceptions_witness:
  "(\<exists>b. (''slack_post_message'', b) \<in> set unified_branches
        \<and> handler_of b (failing_world ratelimited text_reply) (\<lambda>p. PStr ''C1'')
            = ([SlackChatPostMessage (PStr ''C1'') None (PStr ''C1'')],
               Inr ''Slack API Error: ratelimited''))
   \<and> raises (failing_world ratelimited text_reply)
         (SlackChatPostMessage (PStr ''C1'') None (PStr ''C1'')) = Some ratelimited
   \<and> caught ''slack_post_message'' ratelimited
   \<and> unified_answer (failing_world ratelimited text_reply) ''slack_post_message'' ratelimited
         ''Slack API Error: ratelimited''
   \<and> (\<exists>b. (''upload_file'', b) \<in> set app_branches
        \<and> handler_of b (failing_world offline text_reply) (\<lambda>p. PStr ''x'')
            = ([GhGetRepo (PStr ''x'')], Inr ''Error uploading file: offline''))
   \<and> raises (failing_world offline text_reply) (GhGetRepo (PStr ''x'')) = Some offline
   \<and> (\<exists>pre. map_of app_error_prefix ''upload_file'' = Some pre \<and> prefix ''Error '' pre
         \<and> \<not> prefix ''Error:'' pre
         \<and> ''Error uploading file: offline'' = pre @ str_exn offline)"
proof -
  let ?w = "failing_world ratelimited text_reply"
  let ?c = "SlackChatPostMessage (PStr ''C1'') None (PStr ''C1'')"
  let ?b = "Expand [(''channel_id'', None), (''text'', None)]
          (\<lambda>w a. slack_post_message w (a ''channel_id'') (a ''text''))"
  have b: "(''slack_post_message'', ?b) \<in> set unified_branches"
    by (simp add: unified_branches_def)
  have run: "handler_of ?b ?w (\<lambda>p. PStr ''C1'') = ([?c], Inr ''Slack API Error: ratelimited'')"
    by (simp add: slack_post_message_def slack_post_message_except_def failing_world_def
          ratelimited_def eff_defs)
  have c: "?c \<in> set [?c]" by simp
  have e: "raises ?w ?c = Some ratelimited"
    by (simp add: failing_world_def failure_def)
  have k: "caught ''slack_post_message'' ratelimited"
    by (simp add: caught_def ratelimited_def)
  from handlers_answer_caught_exceptions [THEN conjunct1, rule_format, OF b run c e k]
  have u: "unified_answer ?w ''slack_post_message'' ratelimited ''Slack API Error: ratelimited''"
    by simp
  let ?w' = "failing_world offline text_reply"
  let ?b' = "Expand [(''repo_name'', None), (''file_path'', None),
                (''commit_message'', Some (PStr ''Add Python script''))]
          (\<lambda>w a. upload_file w (a ''repo_name'') (a ''file_path'') (a ''commit_message''))"
  have b': "(''upload_file'', ?b') \<in> set app_branches"
    by (simp add: app_branches_def)
  have run': "handler_of ?b' ?w' (\<lambda>p. PStr ''x'')
               = ([GhGetRepo (PStr ''x'')], Inr ''Error uploading file: offline'')"
    by (simp add: upload_file_def failing_world_def offline_def eff_defs)
  have c': "GhGetRepo (PStr ''x'') \<in> set [GhGetRepo (PStr ''x'')]" by simp
  have e': "raises ?w' (GhGetRepo (PStr ''x'')) = Some offline"
    by (simp add: failing_world_def failure_def)
  from handlers_answer_caught_exceptions [THEN conjunct2, rule_format, OF b' run' c' e']
  have a: "\<exists>pre. map_of app_error_prefix ''upload_file'' = Some pre \<and> prefix ''Error '' pre
         \<and> \<not> prefix ''Error:'' pre
         \<and> ''Error uploading file: offline'' = pre @ str_exn offline"
    by simp
  from b run have 1: "\<exists>b. (''slack_post_message'', b) \<in> set unified_branches
        \<and> handler_of b ?w (\<lambda>p. PStr ''C1'') = ([?c], Inr ''Slack API Error: ratelimited'')"
    by (rule_tac x = ?b in exI) (rule conjI)
  from b' run' have 2: "\<exists>b. (''upload_file'', b) \<in> set app_branches
        \<and> handler_of b ?w' (\<lambda>p. PStr ''x'')
            = ([GhGetRepo (PStr ''x'')], Inr ''Error uploading file: offline'')"
    by (rule_tac x = ?b' in exI) (rule conjI)
  from 1 e k u 2 e' a show ?thesis by (intro conjI)
qed

subsection \<open>The dispatchers on a tool call\<close>

text \<open>
  What a dispatcher does once the model has answered with a tool call: only the first call of
  the list enters the result.
\<close>

lemma unified_first_call:
  assumes "chat_complete w p = Inr resp" and "choices resp = m # ms"
    and "tool_calls m = Some (tc # rest)"
  shows "unified_get_ai_response w p =
     (case json_loads w (function_arguments tc) of
        Inl e \<Rightarrow> ([ChatComplete p], Inr (PStr (''Error: '' @ str_exn e)))
      | Inr function_args \<Rightarrow>
          (case map_of unified_branches (function_name tc) of
             None \<Rightarrow> ([ChatComplete p], Inr (content m))
           | Some b \<Rightarrow>
               (case call_handler (function_name tc) b w function_args of
                  (t, Inl e) \<Rightarrow> (ChatComplete p # t, Inr (PStr (''Error: '' @ str_exn e)))
                | (t, Inr s) \<Rightarrow> (ChatComplete p # t, Inr (PStr s)))))"
  using assms
  by (simp add: unified_get_ai_response_def first_choice_def eff_defs
      split: sum.splits option.splits prod.splits)

lemma app_first_call:
  assumes "chat_complete w p = Inr resp" and "choices resp = m # ms"
    and "tool_calls m = Some (tc # rest)"
  shows "app_get_ai_response w p =
     (case json_loads w (function_arguments tc) of
        Inl e \<Rightarrow> ([ChatComplete p], Inr (PStr (''Error: '' @ str_exn e)))
      | Inr function_args \<Rightarrow>
          (case map_of app_branches (function_name tc) of
             None \<Rightarrow> ([ChatComplete p], Inr (PStr (''Error: '' @ str_exn unbound_result)))
           | Some b \<Rightarrow>
               (case call_handler (function_name tc) b w function_args of
                  (t, Inl e) \<Rightarrow> (ChatComplete p # t, Inr (PStr (''Error: '' @ str_exn e)))
                | (t, Inr s) \<Rightarrow> (ChatComplete p # t, Inr (PStr s)))))"
  using assms
  by (simp add: app_get_ai_response_def first_choice_def eff_defs
      split: sum.splits option.splits prod.splits)

lemma bind_kwargs_missing:
  assumes "r \<in> set (required_params sig)" and "r \<notin> fst ` set kv"
  shows "\<exists>msg. bind_kwargs fname sig kv = Inl (Exception ''TypeError'' msg)"
proof (cases "filter (\<lambda>k. k \<notin> set (map fst sig)) (map fst kv)")
  case (Cons k ks)
  then show ?thesis by (simp add: bind_kwargs_def unexpected_keyword_def)
next
  case Nil
  from assms have "r \<in> set (filter (\<lambda>p. p \<notin> set (map fst kv)) (required_params sig))"
    by simp
  then have "filter (\<lambda>p. p \<notin> set (map fst kv)) (required_params sig) \<noteq> []"
    by (metis empty_iff list.set(1))
  then obtain x xs where "filter (\<lambda>p. p \<notin> set (map fst kv)) (required_params sig) = x # xs"
    by (meson list.exhaust)
  with Nil show ?thesis by (simp add: bind_kwargs_def missing_arguments_def)
qed

lemma call_handler_missing:
  assumes "r \<in> set (required_params (branch_params b))" and "r \<notin> fst ` set kv"
  shows "\<exists>msg. call_handler fname b w (PDict kv) = ([], Inl (Exception ''TypeError'' msg))"
proof (cases b)
  case (Expand sig body)
  with assms bind_kwargs_missing [of r sig kv fname]
  obtain msg where "bind_kwargs fname sig kv = Inl (Exception ''TypeError'' msg)" by auto
  with Expand show ?thesis by (simp add: call_handler_def eff_defs)
next
  case (NoArgs f)
  with assms show ?thesis by (simp add: required_params_def)
qed

lemma dispatcher_returns:
  "\<exists>t v. try_except m (except_Exception (\<lambda>e. ret (k e))) = (t, Inr v)"
  by (cases m) (auto simp: eff_defs split: sum.splits)

lemma get_ai_response_returns:
  "(\<exists>t v. unified_get_ai_response w p = (t, Inr v)) \<and> (\<exists>t v. app_get_ai_response w p = (t, Inr v))"
  unfolding unified_get_ai_response_def app_get_ai_response_def
  by (intro conjI dispatcher_returns)


lemma unified_list_repositories_returns:
  "\<exists>s. unified_list_repositories w u = ([GhGetRepos u], Inr s)"
  by (simp add: unified_list_repositories_def eff_defs split: sum.splits)

lemma app_list_repositories_returns:
  "\<exists>s. app_list_repositories w u = ([GhGetRepos u], Inr s)"
  by (simp add: app_list_repositories_def eff_defs split: sum.splits)

lemma call_list_repositories:
  "map_of unified_branches ''list_repositories'' = Some b
     \<Longrightarrow> call_handler ''list_repositories'' b w (PDict [(''username'', v)])
           = unified_list_repositories w v"
  "map_of app_branches ''list_repositories'' = Some b'
     \<Longrightarrow> call_handler ''list_repositories'' b' w (PDict [(''username'', v)])
           = app_list_repositories w v"
  by (auto simp: unified_branches_def app_branches_def call_handler_def bind_kwargs_def
        required_params_def eff_defs split: prod.splits)

text \<open>
  C8. When the first tool call of the model's response names \<^verbatim>\<open>list_repositories\<close> and its
  arguments parse to the mapping \<^verbatim>\<open>{"username": "octocat"}\<close>, either dispatcher calls its
  \<^verbatim>\<open>list_repositories\<close> handler with the username \<^verbatim>\<open>octocat\<close> (the one call the handler
  issues, after the call to the model, is for that user) and returns the string that the
  handler returns.
\<close>

theorem list_repositories_octocat:
  assumes "chat_complete w p = Inr resp" and "choices resp = m # ms"
    and "tool_calls m = Some (tc # rest)"
    and "function_name tc = ''list_repositories''"
    and "json_loads w (function_arguments tc) = Inr (PDict [(''username'', PStr ''octocat'')])"
  shows "(\<exists>s. unified_list_repositories w (PStr ''octocat'')
               = ([GhGetRepos (PStr ''octocat'')], Inr s)
             \<and> unified_get_ai_response w p
               = ([ChatComplete p, GhGetRepos (PStr ''octocat'')], Inr (PStr s)))
       \<and> (\<exists>s. app_list_repositories w (PStr ''octocat'')
               = ([GhGetRepos (PStr ''octocat'')], Inr s)
             \<and> app_get_ai_response w p
               = ([ChatComplete p, GhGetRepos (PStr ''octocat'')], Inr (PStr s)))"
proof -
  obtain b where b: "map_of unified_branches ''list_repositories'' = Some b"
    by (simp add: unified_branches_def)
  obtain b' where b': "map_of app_branches ''list_repositories'' = Some b'"
    by (simp add: app_branches_def)
  obtain s where s: "unified_list_repositories w (PStr ''octocat'')
                       = ([GhGetRepos (PStr ''octocat'')], Inr s)"
    using unified_list_repositories_returns by blast
  obtain s' where s': "app_list_repositories w (PStr ''octocat'')
                       = ([GhGetRepos (PStr ''octocat'')], Inr s')"
    using app_list_repositories_returns by blast
  have "unified_get_ai_response w p
          = ([ChatComplete p, GhGetRepos (PStr ''octocat'')], Inr (PStr s))"
    using unified_first_call [OF assms(1-3)] assms(4,5) b s
    by (simp add: call_list_repositories)
  moreover have "app_get_ai_response w p
          = ([ChatComplete p, GhGetRepos (PStr ''octocat'')], Inr (PStr s'))"
    using app_first_call [OF assms(1-3)] assms(4,5) b' s'
    by (simp add: call_list_repositories)
  ultimately show ?thesis using s s' by blast
qed


theorem list_repositories_octocat_witness:
  "chat_complete (sample_world (tool_reply [ToolCall ''list_repositories'' octocat_arguments]))
       ''repos of octocat''
     = Inr (Response [Message (Some [ToolCall ''list_repositories'' octocat_arguments]) (PStr [])])
   \<and> json_loads (sample_world (tool_reply [ToolCall ''list_repositories'' octocat_arguments]))
         octocat_arguments
       = Inr (PDict [(''username'', PStr ''octocat'')])
   \<and> unified_get_ai_response
         (sample_world (tool_reply [ToolCall ''list_repositories'' octocat_arguments]))
         ''repos of octocat''
       = ([ChatComplete ''repos of octocat'', GhGetRepos (PStr ''octocat'')],
          Inr (PStr (bullet @ '' hello: first'' @ newline @ bullet @ '' spoon: No description'')))
   \<and> app_get_ai_response
         (sample_world (tool_reply [ToolCall ''list_repositories'' octocat_arguments]))
         ''repos of octocat''
       = ([ChatComplete ''repos of octocat'', GhGetRepos (PStr ''octocat'')],
          Inr (PStr (app_bullet @ '' hello: first'' @ newline
                       @ app_bullet @ '' spoon: No description'')))"
proof -
  let ?tc = "ToolCall ''list_repositories'' octocat_arguments"
  let ?w = "sample_world (tool_reply [?tc])"
  have h1: "chat_complete ?w ''repos of octocat''
              = Inr (Response [Message (Some [?tc]) (PStr [])])"
    by (simp add: sample_world_def tool_reply_def)
  have h2: "choices (Response [Message (Some [?tc]) (PStr [])])
              = Message (Some [?tc]) (PStr []) # []"
    by simp
  have h3: "tool_calls (Message (Some [?tc]) (PStr [])) = Some (?tc # [])"
    by simp
  have h4: "function_name ?tc = ''list_repositories''"
    by simp
  have h5: "json_loads ?w (function_arguments ?tc) = Inr (PDict [(''username'', PStr ''octocat'')])"
    by (simp add: sample_world_def sample_json_loads_def)
  have u: "unified_list_repositories ?w (PStr ''octocat'')
             = ([GhGetRepos (PStr ''octocat'')],
                Inr (bullet @ '' hello: first'' @ newline @ bullet @ '' spoon: No description''))"
    by (simp add: unified_list_repositories_def sample_world_def eff_defs or_default_def)
  have a: "app_list_repositories ?w (PStr ''octocat'')
             = ([GhGetRepos (PStr ''octocat'')],
                Inr (app_bullet @ '' hello: first'' @ newline
                       @ app_bullet @ '' spoon: No description''))"
    by (simp add: app_list_repositories_def sample_world_def eff_defs or_default_def)
  from list_repositories_octocat [OF h1 h2 h3 h4 h5] u a h1 h5
  show ?thesis by simp
qed

subsection \<open>Arguments that do not parse or do not fit\<close>

text \<open>
  C2, as the code has it. When the first tool call's arguments fail to parse as JSON with an
  exception \<open>e\<close>, either dispatcher catches \<open>e\<close> in its own \<^verbatim>\<open>try\<close> and returns the string
  \<^verbatim>\<open>Error:\<close> with the text of \<open>e\<close>, having called no handler. When they parse to a mapping
  that lacks a parameter without default of the handler that the call names, the
  \<^verbatim>\<open>TypeError\<close> of the call is caught the same way and returned as \<^verbatim>\<open>Error:\<close> with its text,
  and no remote call is issued. A dispatcher never raises towards its caller.
\<close>

theorem malformed_arguments_are_answered:
  assumes "chat_complete w p = Inr resp" and "choices resp = m # ms"
    and "tool_calls m = Some (tc # rest)"
  shows "(\<forall>e. json_loads w (function_arguments tc) = Inl e \<longrightarrow>
            unified_get_ai_response w p = ([ChatComplete p], Inr (PStr (''Error: '' @ str_exn e)))
            \<and> app_get_ai_response w p = ([ChatComplete p], Inr (PStr (''Error: '' @ str_exn e))))
       \<and> (\<forall>kv b r. json_loads w (function_arguments tc) = Inr (PDict kv) \<longrightarrow>
            map_of unified_branches (function_name tc) = Some b \<longrightarrow>
            r \<in> set (required_params (branch_params b)) \<longrightarrow> r \<notin> fst ` set kv \<longrightarrow>
            (\<exists>msg. unified_get_ai_response w p
                     = ([ChatComplete p], Inr (PStr (''Error: '' @ msg)))))
       \<and> (\<forall>kv b r. json_loads w (function_arguments tc) = Inr (PDict kv) \<longrightarrow>
            map_of app_branches (function_name tc) = Some b \<longrightarrow>
            r \<in> set (required_params (branch_params b)) \<longrightarrow> r \<notin> fst ` set kv \<longrightarrow>
            (\<exists>msg. app_get_ai_response w p
                     = ([ChatComplete p], Inr (PStr (''Error: '' @ msg)))))
       \<and> (\<exists>t v. unified_get_ai_response w p = (t, Inr v))
       \<and> (\<exists>t v. app_get_ai_response w p = (t, Inr v))"
proof (intro conjI allI impI)
  fix e assume "json_loads w (function_arguments tc) = Inl e"
  then show "unified_get_ai_response w p = ([ChatComplete p], Inr (PStr (''Error: '' @ str_exn e)))"
    and "app_get_ai_response w p = ([ChatComplete p], Inr (PStr (''Error: '' @ str_exn e)))"
    using unified_first_call [OF assms] app_first_call [OF assms] by simp_all
next
  fix kv b r
  assume j: "json_loads w (function_arguments tc) = Inr (PDict kv)"
    and b: "map_of unified_branches (function_name tc) = Some b"
    and r: "r \<in> set (required_params (branch_params b))" "r \<notin> fst ` set kv"
  from call_handler_missing [OF r] obtain msg
    where "call_handler (function_name tc) b w (PDict kv) = ([], Inl (Exception ''TypeError'' msg))"
    by blast
  with unified_first_call [OF assms] j b
  have "unified_get_ai_response w p = ([ChatComplete p], Inr (PStr (''Error: '' @ msg)))"
    by simp
  then show "\<exists>msg. unified_get_ai_response w p = ([ChatComplete p], Inr (PStr (''Error: '' @ msg)))"
    by blast
next
  fix kv b r
  assume j: "json_loads w (function_arguments tc) = Inr (PDict kv)"
    and b: "map_of app_branches (function_name tc) = Some b"
    and r: "r \<in> set (required_params (branch_params b))" "r \<notin> fst ` set kv"
  from call_handler_missing [OF r] obtain msg
    where "call_handler (function_name tc) b w (PDict kv) = ([], Inl (Exception ''TypeError'' msg))"
    by blast
  with app_first_call [OF assms] j b
  have "app_get_ai_response w p = ([ChatComplete p], Inr (PStr (''Error: '' @ msg)))"
    by simp
  then show "\<exists>msg. app_get_ai_response w p = ([ChatComplete p], Inr (PStr (''Error: '' @ msg)))"
    by blast
next
  show "\<exists>t v. unified_get_ai_response w p = (t, Inr v)"
    and "\<exists>t v. app_get_ai_response w p = (t, Inr v)"
    using get_ai_response_returns by blast+
qed

subsection \<open>A tool call that names no handler\<close>

text \<open>
  C9, as the code has it. Suppose the first tool call's arguments parse as JSON. If its name
  is the name of no branch, \<^verbatim>\<open>get_ai_response\<close> of \<^verbatim>\<open>unified_app.py\<close> returns the content of
  the message, and that of \<^verbatim>\<open>app.py\<close> returns \<^verbatim>\<open>Error:\<close> with the text of the
  \<^verbatim>\<open>UnboundLocalError\<close> (a \<^verbatim>\<open>NameError\<close>) that the read of \<^verbatim>\<open>result\<close> raises; neither
  issues a call besides the one to the model.
\<close>

theorem unknown_operation:
  assumes "chat_complete w p = Inr resp" and "choices resp = m # ms"
    and "tool_calls m = Some (tc # rest)"
    and "json_loads w (function_arguments tc) = Inr function_args"
  shows "(function_name tc \<notin> fst ` set unified_branches \<longrightarrow>
            unified_get_ai_response w p = ([ChatComplete p], Inr (content m)))
       \<and> (function_name tc \<notin> fst ` set app_branches \<longrightarrow>
            app_get_ai_response w p
              = ([ChatComplete p], Inr (PStr (''Error: '' @ str_exn unbound_result))))"
  using unified_first_call [OF assms(1-3)] app_first_call [OF assms(1-3)] assms(4)
  by (simp add: map_of_eq_None_iff [symmetric])


subsection \<open>The dispatchers at sample responses\<close>

lemmas sample_defs = sample_world_def tool_reply_def sample_json_loads_def octocat_arguments_def
  double_quoted_def

text \<open>
  C2 as it was stated fails: on a payload that is no JSON, and on the mapping \<^verbatim>\<open>{}\<close> for
  \<^verbatim>\<open>list_repositories\<close>, both dispatchers return an \<^verbatim>\<open>Error:\<close> string; no exception reaches
  their caller.
\<close>

theorem malformed_arguments_counterexample:
  "json_loads (sample_world (tool_reply [ToolCall ''list_repositories'' ''not json'']))
       ''not json''
     = Inl (Exception ''JSONDecodeError'' ''Expecting value: line 1 column 1 (char 0)'')
   \<and> unified_get_ai_response
         (sample_world (tool_reply [ToolCall ''list_repositories'' ''not json''])) ''hi''
       = ([ChatComplete ''hi''],
          Inr (PStr ''Error: Expecting value: line 1 column 1 (char 0)''))
   \<and> app_get_ai_response
         (sample_world (tool_reply [ToolCall ''list_repositories'' ''not json''])) ''hi''
       = ([ChatComplete ''hi''],
          Inr (PStr ''Error: Expecting value: line 1 column 1 (char 0)''))
   \<and> json_loads (sample_world (tool_reply [ToolCall ''list_repositories'' ''{}''])) ''{}''
       = Inr (PDict [])
   \<and> unified_get_ai_response
         (sample_world (tool_reply [ToolCall ''list_repositories'' ''{}''])) ''hi''
       = ([ChatComplete ''hi''],
          Inr (PStr (''Error: '' @ str_exn (missing_arguments ''list_repositories'' [''username'']))))
   \<and> app_get_ai_response
         (sample_world (tool_reply [ToolCall ''list_repositories'' ''{}''])) ''hi''
       = ([ChatComplete ''hi''],
          Inr (PStr (''Error: '' @ str_exn (missing_arguments ''list_repositories'' [''username'']))))"
  by (simp add: unified_get_ai_response_def app_get_ai_response_def first_choice_def
        unified_branches_def app_branches_def call_handler_def bind_kwargs_def
        required_params_def eff_defs sample_defs)


theorem malformed_arguments_are_answered_witness:
  "json_loads (sample_world (tool_reply [ToolCall ''create_repository'' ''oops''])) ''oops''
     = Inl (Exception ''JSONDecodeError'' ''Expecting value: line 1 column 1 (char 0)'')
   \<and> unified_get_ai_response
         (sample_world (tool_reply [ToolCall ''create_repository'' ''oops''])) ''new repo''
       = ([ChatComplete ''new repo''],
          Inr (PStr ''Error: Expecting value: line 1 column 1 (char 0)''))
   \<and> json_loads (sample_world (tool_reply [ToolCall ''create_repository'' ''{}''])) ''{}''
       = Inr (PDict [])
   \<and> (\<exists>b. map_of unified_branches ''create_repository'' = Some b
          \<and> ''name'' \<in> set (required_params (branch_params b)))
   \<and> (\<exists>b. map_of app_branches ''create_repository'' = Some b
          \<and> ''name'' \<in> set (required_params (branch_params b)))
   \<and> ''name'' \<notin> fst ` set ([] :: (string \<times> pyval) list)
   \<and> (\<exists>msg. unified_get_ai_response
                (sample_world (tool_reply [ToolCall ''create_repository'' ''{}''])) ''new repo''
              = ([ChatComplete ''new repo''], Inr (PStr (''Error: '' @ msg))))
   \<and> (\<exists>msg. app_get_ai_response
                (sample_world (tool_reply [ToolCall ''create_repository'' ''{}''])) ''new repo''
              = ([ChatComplete ''new repo''], Inr (PStr (''Error: '' @ msg))))"
proof -
  let ?bad = "ToolCall ''create_repository'' ''oops''"
  let ?w = "sample_world (tool_reply [?bad])"
  have h1: "chat_complete ?w ''new repo'' = Inr (Response [Message (Some [?bad]) (PStr [])])"
    by (simp add: sample_defs)
  have h2: "choices (Response [Message (Some [?bad]) (PStr [])])
              = Message (Some [?bad]) (PStr []) # []"
    by simp
  have h3: "tool_calls (Message (Some [?bad]) (PStr [])) = Some (?bad # [])"
    by simp
  have j: "json_loads ?w (function_arguments ?bad)
             = Inl (Exception ''JSONDecodeError'' ''Expecting value: line 1 column 1 (char 0)'')"
    by (simp add: sample_defs)
  note bad = malformed_arguments_are_answered [OF h1 h2 h3, THEN conjunct1, rule_format, OF j]
  let ?tc = "ToolCall ''create_repository'' ''{}''"
  let ?w' = "sample_world (tool_reply [?tc])"
  have g1: "chat_complete ?w' ''new repo'' = Inr (Response [Message (Some [?tc]) (PStr [])])"
    by (simp add: sample_defs)
  have g2: "choices (Response [Message (Some [?tc]) (PStr [])])
              = Message (Some [?tc]) (PStr []) # []"
    by simp
  have g3: "tool_calls (Message (Some [?tc]) (PStr [])) = Some (?tc # [])"
    by simp
  have j': "json_loads ?w' (function_arguments ?tc) = Inr (PDict [])"
    by (simp add: sample_defs)
  obtain b where b: "map_of unified_branches (function_name ?tc) = Some b"
    and rb: "''name'' \<in> set (required_params (branch_params b))"
    by (force simp: unified_branches_def required_params_def)
  obtain b' where b': "map_of app_branches (function_name ?tc) = Some b'"
    and rb': "''name'' \<in> set (required_params (branch_params b'))"
    by (force simp: app_branches_def required_params_def)
  have n: "''name'' \<notin> fst ` set ([] :: (string \<times> pyval) list)"
    by simp
  note rest = malformed_arguments_are_answered [OF g1 g2 g3, THEN conjunct2]
  note u = rest [THEN conjunct1, rule_format, OF j' b rb n]
  note a = rest [THEN conjunct2, THEN conjunct1, rule_format, OF j' b' rb' n]
  from b rb have eb: "\<exists>b. map_of unified_branches ''create_repository'' = Some b
          \<and> ''name'' \<in> set (required_params (branch_params b))"
    by auto
  from b' rb' have eb': "\<exists>b. map_of app_branches ''create_repository'' = Some b
          \<and> ''name'' \<in> set (required_params (branch_params b))"
    by auto
  from j have j0: "json_loads ?w ''oops''
             = Inl (Exception ''JSONDecodeError'' ''Expecting value: line 1 column 1 (char 0)'')"
    by simp
  from j' have j1: "json_loads ?w' ''{}'' = Inr (PDict [])"
    by simp
  from bad have bad': "unified_get_ai_response ?w ''new repo''
       = ([ChatComplete ''new repo''],
          Inr (PStr ''Error: Expecting value: line 1 column 1 (char 0)''))"
    by simp
  from j0 bad' j1 eb eb' n u a show ?thesis by (intro conjI)
qed

text \<open>
  C9 as it was stated fails: the arguments are parsed before the name is looked at, so an
  unknown operation with a payload that is no JSON makes \<^verbatim>\<open>unified_app.py\<close> return an
  \<^verbatim>\<open>Error:\<close> string, not the content of the message.
\<close>

theorem unknown_operation_counterexample:
  "''frobnicate'' \<notin> fst ` set unified_branches
   \<and> content (Message (Some [ToolCall ''frobnicate'' ''not json'']) (PStr [])) = PStr []
   \<and> unified_get_ai_response
         (sample_world (tool_reply [ToolCall ''frobnicate'' ''not json''])) ''hi''
       = ([ChatComplete ''hi''],
          Inr (PStr ''Error: Expecting value: line 1 column 1 (char 0)''))"
  by (simp add: unified_get_ai_response_def first_choice_def unified_branches_def
        eff_defs sample_defs)

theorem unknown_operation_witness:
  "json_loads (sample_world (tool_reply [ToolCall ''frobnicate'' ''{}''])) ''{}'' = Inr (PDict [])
   \<and> ''frobnicate'' \<notin> fst ` set unified_branches
   \<and> ''frobnicate'' \<notin> fst ` set app_branches
   \<and> unified_get_ai_response (sample_world (tool_reply [ToolCall ''frobnicate'' ''{}''])) ''hi''
       = ([ChatComplete ''hi''], Inr (PStr []))
   \<and> app_get_ai_response (sample_world (tool_reply [ToolCall ''frobnicate'' ''{}''])) ''hi''
       = ([ChatComplete ''hi''], Inr (PStr (''Error: '' @ str_exn unbound_result)))"
proof -
  let ?tc = "ToolCall ''frobnicate'' ''{}''"
  let ?w = "sample_world (tool_reply [?tc])"
  have h1: "chat_complete ?w ''hi'' = Inr (Response [Message (Some [?tc]) (PStr [])])"
    by (simp add: sample_defs)
  have h2: "choices (Response [Message (Some [?tc]) (PStr [])])
              = Message (Some [?tc]) (PStr []) # []"
    by simp
  have h3: "tool_calls (Message (Some [?tc]) (PStr [])) = Some (?tc # [])"
    by simp
  have j: "json_loads ?w (function_arguments ?tc) = Inr (PDict [])"
    by (simp add: sample_defs)
  have u: "function_name ?tc \<notin> fst ` set unified_branches"
    by (simp add: unified_branches_def)
  have a: "function_name ?tc \<notin> fst ` set app_branches"
    by (simp add: app_branches_def)
  note inst = unknown_operation [OF h1 h2 h3 j]
  from inst [THEN conjunct1, rule_format, OF u] inst [THEN conjunct2, rule_format, OF a] j u a
  show ?thesis by simp
qed

subsection \<open>Only the first tool call\<close>

text \<open>No handler consults the model: replacing what the model answers leaves it as it is.\<close>

lemma py_str_frame: "py_str (w\<lparr>chat_complete := f\<rparr>) v = py_str w v"
  by (cases v) simp_all

lemmas handler_defs = unified_create_repository_def unified_list_repositories_def
  create_jira_issue_def list_jira_projects_def create_confluence_page_def
  list_confluence_spaces_def send_slack_message_def upload_file_to_slack_def
  slack_get_thread_replies_def slack_get_users_def slack_get_user_profile_def
  slack_list_channels_def slack_post_message_def slack_reply_to_thread_def
  slack_add_reaction_def slack_get_channel_history_def app_create_repository_def
  create_github_issue_def list_repository_issues_def app_list_repositories_def upload_file_def

lemma except_frame:
  "send_slack_message_except (w\<lparr>chat_complete := f\<rparr>) = send_slack_message_except w"
  "slack_post_message_except (w\<lparr>chat_complete := f\<rparr>) = slack_post_message_except w"
  by (simp_all add: fun_eq_iff send_slack_message_except_def slack_post_message_except_def
        py_str_frame split: exn.splits lookup.splits)

lemma call_handler_frame:
  assumes "\<And>a. handler_of b w' a = handler_of b w a" and "py_module w' = py_module w"
  shows "call_handler name b w' function_args = call_handler name b w function_args"
proof (cases b)
  case (Expand sig body)
  with assms have "body w' = body w" by (simp add: fun_eq_iff)
  with Expand assms(2) show ?thesis
    by (cases function_args) (simp_all add: call_handler_def not_a_mapping_def)
next
  case (NoArgs f)
  with assms show ?thesis by (simp add: call_handler_def)
qed

lemma unified_handlers_frame:
  "(name, b) \<in> set unified_branches
     \<Longrightarrow> handler_of b (w\<lparr>chat_complete := f\<rparr>) a = handler_of b w a"
  by (auto simp: unified_branches_def handler_defs py_str_frame except_frame Let_def
      cong: if_cong)

lemma app_handlers_frame:
  "(name, b) \<in> set app_branches
     \<Longrightarrow> handler_of b (w\<lparr>chat_complete := f\<rparr>) a = handler_of b w a"
  by (auto simp: app_branches_def handler_defs py_str_frame Let_def cong: if_cong)

lemma unified_branches_frame:
  "map_of unified_branches name = Some b
     \<Longrightarrow> call_handler name b (w\<lparr>chat_complete := f\<rparr>) function_args
           = call_handler name b w function_args"
  by (rule call_handler_frame) (erule unified_handlers_frame [OF map_of_SomeD], simp)

lemma app_branches_frame:
  "map_of app_branches name = Some b
     \<Longrightarrow> call_handler name b (w\<lparr>chat_complete := f\<rparr>) function_args
           = call_handler name b w function_args"
  by (rule call_handler_frame) (erule app_handlers_frame [OF map_of_SomeD], simp)

text \<open>
  C3, as the code has it. When the first message of the model's response carries at least
  one tool call, a dispatcher acts on the first call \<open>tc\<close> only: the result is the one it
  gives when \<open>tc\<close> is the only call (and the only message) of the response. If the arguments of
  \<open>tc\<close> parse as JSON and its name is the name of a branch, the handler of that branch is
  called with them, the calls issued after the one to the model are that call's, and the
  dispatcher returns the string the handler returned, or \<^verbatim>\<open>Error:\<close> with the text of the
  exception that calling it raised.
\<close>

theorem first_tool_call_only:
  assumes "chat_complete w p = Inr resp" and "choices resp = m # ms"
    and "tool_calls m = Some (tc # rest)"
  shows "unified_get_ai_response w p
           = unified_get_ai_response
               (w\<lparr>chat_complete := \<lambda>q. Inr (Response [Message (Some [tc]) (content m)])\<rparr>) p
       \<and> app_get_ai_response w p
           = app_get_ai_response
               (w\<lparr>chat_complete := \<lambda>q. Inr (Response [Message (Some [tc]) (content m)])\<rparr>) p
       \<and> (\<forall>function_args b t r.
             json_loads w (function_arguments tc) = Inr function_args \<longrightarrow>
             map_of unified_branches (function_name tc) = Some b \<longrightarrow>
             call_handler (function_name tc) b w function_args = (t, r) \<longrightarrow>
             unified_get_ai_response w p
               = (ChatComplete p # t,
                  Inr (PStr (case r of Inl e \<Rightarrow> ''Error: '' @ str_exn e | Inr s \<Rightarrow> s))))
       \<and> (\<forall>function_args b t r.
             json_loads w (function_arguments tc) = Inr function_args \<longrightarrow>
             map_of app_branches (function_name tc) = Some b \<longrightarrow>
             call_handler (function_name tc) b w function_args = (t, r) \<longrightarrow>
             app_get_ai_response w p
               = (ChatComplete p # t,
                  Inr (PStr (case r of Inl e \<Rightarrow> ''Error: '' @ str_exn e | Inr s \<Rightarrow> s))))"
proof -
  let ?w = "w\<lparr>chat_complete := \<lambda>q. Inr (Response [Message (Some [tc]) (content m)])\<rparr>"
  have h1: "chat_complete ?w p = Inr (Response [Message (Some [tc]) (content m)])"
    by simp
  have h2: "choices (Response [Message (Some [tc]) (content m)])
              = Message (Some [tc]) (content m) # []"
    by simp
  have h3: "tool_calls (Message (Some [tc]) (content m)) = Some (tc # [])"
    by simp
  have "unified_get_ai_response ?w p = unified_get_ai_response w p"
    unfolding unified_first_call [OF h1 h2 h3] unified_first_call [OF assms]
    by (simp add: unified_branches_frame split: sum.splits option.splits)
  moreover have "app_get_ai_response ?w p = app_get_ai_response w p"
    unfolding app_first_call [OF h1 h2 h3] app_first_call [OF assms]
    by (simp add: app_branches_frame split: sum.splits option.splits)
  moreover have "\<forall>function_args b t r.
             json_loads w (function_arguments tc) = Inr function_args \<longrightarrow>
             map_of unified_branches (function_name tc) = Some b \<longrightarrow>
             call_handler (function_name tc) b w function_args = (t, r) \<longrightarrow>
             unified_get_ai_response w p
               = (ChatComplete p # t,
                  Inr (PStr (case r of Inl e \<Rightarrow> ''Error: '' @ str_exn e | Inr s \<Rightarrow> s)))"
    unfolding unified_first_call [OF assms] by (simp split: sum.splits)
  moreover have "\<forall>function_args b t r.
             json_loads w (function_arguments tc) = Inr function_args \<longrightarrow>
             map_of app_branches (function_name tc) = Some b \<longrightarrow>
             call_handler (function_name tc) b w function_args = (t, r) \<longrightarrow>
             app_get_ai_response w p
               = (ChatComplete p # t,
                  Inr (PStr (case r of Inl e \<Rightarrow> ''Error: '' @ str_exn e | Inr s \<Rightarrow> s)))"
    unfolding app_first_call [OF assms] by (simp split: sum.splits)
  ultimately show ?thesis by simp
qed


text \<open>
  C3 as it was stated fails where the first call reaches no handler. A first call with an
  unknown name makes \<^verbatim>\<open>unified_app.py\<close> return the content of the message, although a second,
  well-formed call follows; a first call whose payload is no JSON returns the parse error and
  its handler, which would have answered, is not run.
\<close>

theorem first_tool_call_only_counterexample:
  "''frobnicate'' \<notin> fst ` set unified_branches
   \<and> unified_get_ai_response
         (sample_world (tool_reply [ToolCall ''frobnicate'' octocat_arguments,
                                    ToolCall ''list_repositories'' octocat_arguments]))
         ''repos of octocat''
       = ([ChatComplete ''repos of octocat''], Inr (PStr []))
   \<and> ''list_jira_projects'' \<in> fst ` set unified_branches
   \<and> unified_get_ai_response
         (sample_world (tool_reply [ToolCall ''list_jira_projects'' ''not json'']))
         ''my projects''
       = ([ChatComplete ''my projects''],
          Inr (PStr ''Error: Expecting value: line 1 column 1 (char 0)''))
   \<and> list_jira_projects (sample_world (tool_reply [ToolCall ''list_jira_projects'' ''not json'']))
       = ([JiraProjects], Inr (bullet @ '' PROJ: Project''))"
  by (simp add: unified_get_ai_response_def first_choice_def unified_branches_def
        list_jira_projects_def get_or_def eff_defs sample_defs)

theorem first_tool_call_only_witness:
  "chat_complete
       (sample_world (tool_reply [ToolCall ''slack_get_users'' ''{}'',
                                  ToolCall ''list_repositories'' octocat_arguments])) ''who''
     = Inr (Response [Message (Some [ToolCall ''slack_get_users'' ''{}'',
                                     ToolCall ''list_repositories'' octocat_arguments])
                        (PStr [])])
   \<and> (\<exists>b. map_of unified_branches ''slack_get_users'' = Some b
          \<and> call_handler ''slack_get_users'' b
                (sample_world (tool_reply [ToolCall ''slack_get_users'' ''{}'',
                                           ToolCall ''list_repositories'' octocat_arguments]))
                (PDict [])
              = ([SlackUsersList (PInt 100)], Inr (bullet @ '' ada (U1)'')))
   \<and> unified_get_ai_response
         (sample_world (tool_reply [ToolCall ''slack_get_users'' ''{}'',
                                    ToolCall ''list_repositories'' octocat_arguments])) ''who''
       = ([ChatComplete ''who'', SlackUsersList (PInt 100)], Inr (PStr (bullet @ '' ada (U1)'')))
   \<and> unified_get_ai_response
         (sample_world (tool_reply [ToolCall ''slack_get_users'' ''{}''])) ''who''
       = ([ChatComplete ''who'', SlackUsersList (PInt 100)], Inr (PStr (bullet @ '' ada (U1)'')))
   \<and> (\<exists>b. map_of app_branches ''create_repository'' = Some b
          \<and> call_handler ''create_repository'' b
                (sample_world (tool_reply [ToolCall ''create_repository'' ''{}'',
                                           ToolCall ''list_repositories'' octocat_arguments]))
                (PDict [])
              = ([], Inl (missing_arguments ''create_repository'' [''name''])))
   \<and> app_get_ai_response
         (sample_world (tool_reply [ToolCall ''create_repository'' ''{}'',
                                    ToolCall ''list_repositories'' octocat_arguments])) ''new''
       = ([ChatComplete ''new''],
          Inr (PStr (''Error: '' @ str_exn (missing_arguments ''create_repository'' [''name'']))))"
proof -
  let ?tc = "ToolCall ''slack_get_users'' ''{}''"
  let ?more = "[ToolCall ''list_repositories'' octocat_arguments]"
  let ?w = "sample_world (tool_reply (?tc # ?more))"
  have h1: "chat_complete ?w ''who'' = Inr (Response [Message (Some (?tc # ?more)) (PStr [])])"
    by (simp add: sample_world_def tool_reply_def)
  have h2: "choices (Response [Message (Some (?tc # ?more)) (PStr [])])
              = Message (Some (?tc # ?more)) (PStr []) # []"
    by simp
  have h3: "tool_calls (Message (Some (?tc # ?more)) (PStr [])) = Some (?tc # ?more)"
    by simp
  have j: "json_loads ?w (function_arguments ?tc) = Inr (PDict [])"
    by (simp add: sample_defs)
  obtain b where b: "map_of unified_branches (function_name ?tc) = Some b"
    and run: "call_handler (function_name ?tc) b ?w (PDict [])
                = ([SlackUsersList (PInt 100)], Inr (bullet @ '' ada (U1)''))"
    by (simp add: unified_branches_def call_handler_def bind_kwargs_def required_params_def
          slack_get_users_def eff_defs sample_world_def)
  note inst = first_tool_call_only [OF h1 h2 h3]
  from inst [THEN conjunct2, THEN conjunct2, THEN conjunct1, rule_format, OF j b run]
  have u: "unified_get_ai_response ?w ''who''
             = ([ChatComplete ''who'', SlackUsersList (PInt 100)],
                Inr (PStr (bullet @ '' ada (U1)'')))"
    by simp
  have same: "?w\<lparr>chat_complete := \<lambda>q. Inr (Response [Message (Some [?tc]) (PStr [])])\<rparr>
                = sample_world (tool_reply [?tc])"
    by (simp add: sample_world_def tool_reply_def)
  from inst [THEN conjunct1] u same
  have u1: "unified_get_ai_response (sample_world (tool_reply [?tc])) ''who''
             = ([ChatComplete ''who'', SlackUsersList (PInt 100)],
                Inr (PStr (bullet @ '' ada (U1)'')))"
    by simp
  let ?tc' = "ToolCall ''create_repository'' ''{}''"
  let ?w' = "sample_world (tool_reply (?tc' # ?more))"
  have g1: "chat_complete ?w' ''new'' = Inr (Response [Message (Some (?tc' # ?more)) (PStr [])])"
    by (simp add: sample_world_def tool_reply_def)
  have g2: "choices (Response [Message (Some (?tc' # ?more)) (PStr [])])
              = Message (Some (?tc' # ?more)) (PStr []) # []"
    by simp
  have g3: "tool_calls (Message (Some (?tc' # ?more)) (PStr [])) = Some (?tc' # ?more)"
    by simp
  have j': "json_loads ?w' (function_arguments ?tc') = Inr (PDict [])"
    by (simp add: sample_defs)
  obtain b' where b': "map_of app_branches (function_name ?tc') = Some b'"
    and run': "call_handler (function_name ?tc') b' ?w' (PDict [])
                = ([], Inl (missing_arguments ''create_repository'' [''name'']))"
    by (simp add: app_branches_def call_handler_def bind_kwargs_def required_params_def
          eff_defs)
  from first_tool_call_only [OF g1 g2 g3, THEN conjunct2, THEN conjunct2, THEN conjunct2,
      rule_format, OF j' b' run']
  have a: "app_get_ai_response ?w' ''new''
       = ([ChatComplete ''new''],
          Inr (PStr (''Error: '' @ str_exn (missing_arguments ''create_repository'' [''name'']))))"
    by simp
  from b run have eb: "\<exists>b. map_of unified_branches ''slack_get_users'' = Some b
          \<and> call_handler ''slack_get_users'' b ?w (PDict [])
              = ([SlackUsersList (PInt 100)], Inr (bullet @ '' ada (U1)''))"
    by auto
  from b' run' have eb': "\<exists>b. map_of app_branches ''create_repository'' = Some b
          \<and> call_handler ''create_repository'' b ?w' (PDict [])
              = ([], Inl (missing_arguments ''create_repository'' [''name'']))"
    by auto
  from h1 eb u u1 eb' a show ?thesis by (intro conjI)
qed

subsection \<open>The catalogs and the dispatchers\<close>

lemma required_raises:
  assumes "(r, None) \<in> set (branch_params b)" and "r \<notin> fst ` set kv"
  shows "\<exists>msg. call_handler name b w (PDict kv) = ([], Inl (Exception ''TypeError'' msg))"
proof -
  from assms(1) have "r \<in> set (required_params (branch_params b))"
    by (force simp: required_params_def)
  from call_handler_missing [OF this assms(2)] show ?thesis .
qed

lemma unified_catalog: "catalog_matches unified_tools unified_branches"
  by (simp add: catalog_matches_def unified_tools_def unified_branches_def count_branches_def)

lemma app_catalog: "catalog_matches app_tools app_branches"
  by (simp add: catalog_matches_def app_tools_def app_branches_def count_branches_def)

lemma catalog_matches_required:
  assumes "catalog_matches tools branches" and "t \<in> set tools"
  shows "count_branches (tool_name t) branches = 1
       \<and> (\<forall>r \<in> set (tool_required t).
             \<exists>b. map_of branches (tool_name t) = Some b
               \<and> (r, None) \<in> set (branch_params b)
               \<and> (\<forall>w kv. r \<notin> fst ` set kv \<longrightarrow>
                     (\<exists>msg. call_handler (tool_name t) b w (PDict kv)
                              = ([], Inl (Exception ''TypeError'' msg)))))"
proof (intro conjI ballI)
  from assms show "count_branches (tool_name t) branches = 1"
    by (simp add: catalog_matches_def)
next
  fix r assume "r \<in> set (tool_required t)"
  with assms obtain b where b: "map_of branches (tool_name t) = Some b"
    and r: "(r, None) \<in> set (branch_params b)"
    by (auto simp: catalog_matches_def split: option.splits)
  from r have "\<forall>w kv. r \<notin> fst ` set kv \<longrightarrow>
                     (\<exists>msg. call_handler (tool_name t) b w (PDict kv)
                              = ([], Inl (Exception ''TypeError'' msg)))"
    by (intro allI impI) (rule required_raises)
  with b r show "\<exists>b. map_of branches (tool_name t) = Some b
               \<and> (r, None) \<in> set (branch_params b)
               \<and> (\<forall>w kv. r \<notin> fst ` set kv \<longrightarrow>
                     (\<exists>msg. call_handler (tool_name t) b w (PDict kv)
                              = ([], Inl (Exception ''TypeError'' msg))))"
    by blast
qed

text \<open>
  C4. In both files, the name of every entry of \<^verbatim>\<open>tools\<close> is the name of exactly one branch
  of the dispatcher, and every name the entry declares required is a parameter without
  default in the signature of the handler behind that branch, so that calling the handler
  with a mapping that lacks it raises a \<^verbatim>\<open>TypeError\<close> before the handler issues any call.
\<close>

theorem catalog_matches_dispatcher:
  "(\<forall>t \<in> set unified_tools.
      count_branches (tool_name t) unified_branches = 1
      \<and> (\<forall>r \<in> set (tool_required t).
            \<exists>b. map_of unified_branches (tool_name t) = Some b
              \<and> (r, None) \<in> set (branch_params b)
              \<and> (\<forall>w kv. r \<notin> fst ` set kv \<longrightarrow>
                    (\<exists>msg. call_handler (tool_name t) b w (PDict kv)
                             = ([], Inl (Exception ''TypeError'' msg))))))
   \<and> (\<forall>t \<in> set app_tools.
      count_branches (tool_name t) app_branches = 1
      \<and> (\<forall>r \<in> set (tool_required t).
            \<exists>b. map_of app_branches (tool_name t) = Some b
              \<and> (r, None) \<in> set (branch_params b)
              \<and> (\<forall>w kv. r \<notin> fst ` set kv \<longrightarrow>
                    (\<exists>msg. call_handler (tool_name t) b w (PDict kv)
                             = ([], Inl (Exception ''TypeError'' msg))))))"
  using catalog_matches_required [OF unified_catalog] catalog_matches_required [OF app_catalog]
  by blast


theorem catalog_matches_dispatcher_witness:
  "(\<exists>t \<in> set unified_tools. tool_name t = ''slack_get_channel_history''
        \<and> tool_required t = [''channel_id''])
   \<and> count_branches ''slack_get_channel_history'' unified_branches = 1
   \<and> ''channel_id'' \<notin> fst ` set [(''limit'', PInt 5)]
   \<and> (\<exists>b. map_of unified_branches ''slack_get_channel_history'' = Some b
          \<and> (''channel_id'', None) \<in> set (branch_params b)
          \<and> (\<exists>msg. call_handler ''slack_get_channel_history'' b (sample_world text_reply)
                       (PDict [(''limit'', PInt 5)])
                     = ([], Inl (Exception ''TypeError'' msg))))
   \<and> (\<exists>t \<in> set app_tools. tool_name t = ''upload_file''
        \<and> tool_required t = [''repo_name'', ''file_path''])
   \<and> count_branches ''upload_file'' app_branches = 1
   \<and> ''file_path'' \<notin> fst ` set [(''repo_name'', PStr ''octocat/demo'')]
   \<and> (\<exists>b. map_of app_branches ''upload_file'' = Some b
          \<and> (''file_path'', None) \<in> set (branch_params b)
          \<and> (\<exists>msg. call_handler ''upload_file'' b (sample_world text_reply)
                       (PDict [(''repo_name'', PStr ''octocat/demo'')])
                     = ([], Inl (Exception ''TypeError'' msg))))"
proof -
  obtain t where t: "t \<in> set unified_tools" "tool_name t = ''slack_get_channel_history''"
      "tool_required t = [''channel_id'']"
    by (force simp: unified_tools_def)
  have k: "''channel_id'' \<notin> fst ` set [(''limit'', PInt 5)]"
    by simp
  from catalog_matches_dispatcher [THEN conjunct1, THEN bspec, OF t(1)] t(2,3)
  have c: "count_branches ''slack_get_channel_history'' unified_branches = 1"
    and "\<exists>b. map_of unified_branches ''slack_get_channel_history'' = Some b
              \<and> (''channel_id'', None) \<in> set (branch_params b)
              \<and> (\<forall>w kv. ''channel_id'' \<notin> fst ` set kv \<longrightarrow>
                    (\<exists>msg. call_handler ''slack_get_channel_history'' b w (PDict kv)
                             = ([], Inl (Exception ''TypeError'' msg))))"
    by simp_all
  with k have b: "\<exists>b. map_of unified_branches ''slack_get_channel_history'' = Some b
          \<and> (''channel_id'', None) \<in> set (branch_params b)
          \<and> (\<exists>msg. call_handler ''slack_get_channel_history'' b (sample_world text_reply)
                       (PDict [(''limit'', PInt 5)])
                     = ([], Inl (Exception ''TypeError'' msg)))"
    by blast
  obtain t' where t': "t' \<in> set app_tools" "tool_name t' = ''upload_file''"
      "tool_required t' = [''repo_name'', ''file_path'']"
    by (force simp: app_tools_def)
  have k': "''file_path'' \<notin> fst ` set [(''repo_name'', PStr ''octocat/demo'')]"
    by simp
  from catalog_matches_dispatcher [THEN conjunct2, THEN bspec, OF t'(1)] t'(2,3)
  have c': "count_branches ''upload_file'' app_branches = 1"
    and "\<exists>b. map_of app_branches ''upload_file'' = Some b
              \<and> (''file_path'', None) \<in> set (branch_params b)
              \<and> (\<forall>w kv. ''file_path'' \<notin> fst ` set kv \<longrightarrow>
                    (\<exists>msg. call_handler ''upload_file'' b w (PDict kv)
                             = ([], Inl (Exception ''TypeError'' msg))))"
    by simp_all
  with k' have b': "\<exists>b. map_of app_branches ''upload_file'' = Some b
          \<and> (''file_path'', None) \<in> set (branch_params b)
          \<and> (\<exists>msg. call_handler ''upload_file'' b (sample_world text_reply)
                       (PDict [(''repo_name'', PStr ''octocat/demo'')])
                     = ([], Inl (Exception ''TypeError'' msg)))"
    by blast
  from t have e: "\<exists>t \<in> set unified_tools. tool_name t = ''slack_get_channel_history''
        \<and> tool_required t = [''channel_id'']"
    by blast
  from t' have e': "\<exists>t \<in> set app_tools. tool_name t = ''upload_file''
        \<and> tool_required t = [''repo_name'', ''file_path'']"
    by blast
  from e c k b e' c' k' b' show ?thesis by (intro conjI)
qed

subsection \<open>Commands answered without the model\<close>

text \<open>
  The combinators add no call to the model, so a computation built from calls to Slack issues
  none.
\<close>

lemma local_ret: "\<not> invokes_model (fst (ret x))"
  by (simp add: invokes_model_def ret_def)

lemma local_pure: "\<not> invokes_model (fst (pure r))"
  by (simp add: invokes_model_def pure_def)

lemma local_invoke: "\<not> is_model_call c \<Longrightarrow> \<not> invokes_model (fst (invoke c r))"
  by (simp add: invokes_model_def invoke_def)

lemma local_and_then:
  assumes "\<not> invokes_model (fst m)" and "\<And>x. \<not> invokes_model (fst (f x))"
  shows "\<not> invokes_model (fst (and_then m f))"
proof (cases m)
  case (Pair t r)
  show ?thesis
  proof (cases r)
    case (Inl e)
    with Pair assms(1) show ?thesis by (simp add: and_then_def)
  next
    case (Inr x)
    with Pair assms(1) assms(2) [of x] show ?thesis
      by (cases "f x") (simp add: and_then_def invokes_model_def)
  qed
qed

lemma local_try_except:
  assumes "\<not> invokes_model (fst m)" and "\<And>e a. h e = Some a \<Longrightarrow> fst a = []"
  shows "\<not> invokes_model (fst (try_except m h))"
proof (cases m)
  case (Pair t r)
  show ?thesis
  proof (cases r)
    case (Inr x)
    with Pair assms(1) show ?thesis by (simp add: try_except_def)
  next
    case (Inl e)
    show ?thesis
    proof (cases "h e")
      case None
      with Pair Inl assms(1) show ?thesis by (simp add: try_except_def)
    next
      case (Some a)
      with assms(2) have "fst a = []" by blast
      with Pair Inl Some assms(1) show ?thesis by (cases a) (simp add: try_except_def)
    qed
  qed
qed

lemma local_if:
  "\<not> invokes_model (fst a) \<Longrightarrow> \<not> invokes_model (fst b)
     \<Longrightarrow> \<not> invokes_model (fst (if x then a else b))"
  by simp

lemma bare_except_quiet: "bare_except usage e = Some a \<Longrightarrow> fst a = []"
  by (auto simp: bare_except_def ret_def)

lemmas local_intros = local_try_except local_and_then local_invoke local_ret local_pure local_if

lemma local_as_response:
  "\<not> invokes_model (fst m) \<Longrightarrow> \<not> invokes_model (fst (as_response m))"
  unfolding as_response_def by (intro local_intros)

lemma slack_list_channels_local: "\<not> invokes_model (fst (slack_list_channels w l))"
  unfolding slack_list_channels_def
  by (intro local_intros) (auto dest: except_quiet)

lemma slack_post_message_local: "\<not> invokes_model (fst (slack_post_message w c t))"
  unfolding slack_post_message_def Let_def
  by (intro local_intros) (auto dest: except_quiet)

lemma slack_reply_to_thread_local: "\<not> invokes_model (fst (slack_reply_to_thread w c ts t))"
  unfolding slack_reply_to_thread_def
  by (intro local_intros) (auto dest: except_quiet)

lemma slack_add_reaction_local: "\<not> invokes_model (fst (slack_add_reaction w c ts r))"
  unfolding slack_add_reaction_def
  by (intro local_intros) (auto dest: except_quiet)

lemma slack_get_channel_history_local:
  "\<not> invokes_model (fst (slack_get_channel_history w c l))"
  unfolding slack_get_channel_history_def
  by (intro local_intros) (auto dest: except_quiet)


lemmas command_local = slack_list_channels_local slack_post_message_local
  slack_reply_to_thread_local slack_add_reaction_local slack_get_channel_history_local

lemma unified_respond_local:
  assumes "is_local_command u"
  shows "\<not> invokes_model (fst (unified_respond w u))"
proof -
  have send: "\<not> invokes_model (fst
      (case py_split u '' to '' (Some 1) of
           [part0, part1] \<Rightarrow>
             as_response
               (slack_post_message w (PStr (py_strip part1))
                  (PStr (py_strip (py_replace part0 ''send message'' []))))
         | _ \<Rightarrow> ret (PStr ''Please use format: send message <text> to <channel>'')))"
    by (auto split: list.splits intro!: local_as_response command_local local_ret)
  have reply: "\<And>sep old usage. \<not> invokes_model (fst
      (try_except
          (and_then (pure (item (py_split u sep (Some 1)) 1))
             (\<lambda>tail. let parts = py_split tail '' in '' None in
                and_then (pure (item parts 0))
                  (\<lambda>p0. and_then (pure (item parts 1))
                     (\<lambda>p1. and_then (pure (item (py_split u sep None) 0))
                        (\<lambda>head.
                           as_response
                             (slack_reply_to_thread w (PStr (py_strip p1)) (PStr (py_strip p0))
                                (PStr (py_strip (py_replace head old [])))))))))
          (bare_except usage)))"
    unfolding Let_def
    by (intro local_intros local_as_response command_local) (erule bare_except_quiet)
  have react: "\<And>sep old usage. \<not> invokes_model (fst
      (try_except
          (and_then (pure (item (py_split u sep (Some 1)) 1))
             (\<lambda>tail. let parts = py_split tail '' in '' None in
                and_then (pure (item parts 0))
                  (\<lambda>p0. and_then (pure (item parts 1))
                     (\<lambda>p1. and_then (pure (item (py_split u sep None) 0))
                        (\<lambda>head.
                           as_response
                             (slack_add_reaction w (PStr (py_strip p1)) (PStr (py_strip p0))
                                (PStr (py_strip (py_replace head old [])))))))))
          (bare_except usage)))"
    unfolding Let_def
    by (intro local_intros local_as_response command_local) (erule bare_except_quiet)
  have history: "\<not> invokes_model (fst
      (try_except
          (let parts = py_split_ws (py_strip (py_replace u ''show history'' [])) in
             and_then (pure (item parts 0))
               (\<lambda>channel.
                  and_then
                    (if 1 < length parts
                     then and_then (pure (item parts 1)) (\<lambda>p1. pure (py_int w p1))
                     else ret 10)
                    (\<lambda>limit.
                       as_response (slack_get_channel_history w (PStr channel) (PInt limit)))))
          (bare_except ''Please use format: show history <channel> [limit]'')))"
    unfolding Let_def
    by (intro local_intros local_as_response command_local) (erule bare_except_quiet)
  have channels: "\<not> invokes_model (fst (as_response (slack_list_channels w (PInt 100))))"
    by (intro local_as_response command_local)
  show ?thesis
  proof (cases "py_lower u = ''list channels''")
    case True
    with channels show ?thesis
      unfolding unified_respond_def by (simp only: if_True simp_thms)
  next
    case c1: False
    show ?thesis
    proof (cases "prefix ''send message'' (py_lower u)")
      case True
      with c1 send show ?thesis
        unfolding unified_respond_def by (simp only: if_True if_False simp_thms)
    next
      case c2: False
      show ?thesis
      proof (cases "prefix ''reply'' (py_lower u)")
        case True
        with c1 c2 reply show ?thesis
          unfolding unified_respond_def by (simp only: if_True if_False simp_thms)
      next
        case c3: False
        show ?thesis
        proof (cases "prefix ''add reaction'' (py_lower u)")
          case True
          with c1 c2 c3 react show ?thesis
            unfolding unified_respond_def by (simp only: if_True if_False simp_thms)
        next
          case c4: False
          with assms c1 c2 c3 have "prefix ''show history'' (py_lower u)"
            unfolding is_local_command_def by blast
          with c1 c2 c3 c4 history show ?thesis
            unfolding unified_respond_def by (simp only: if_True if_False simp_thms)
        qed
      qed
    qed
  qed
qed


lemma unified_turn_calls:
  "fst (unified_turn w u) = (if is_quit u then [] else fst (unified_respond w u))"
  by (simp add: unified_turn_def split: prod.splits sum.splits pyval.splits)

lemma local_command_not_quit: "is_local_command u \<Longrightarrow> \<not> is_quit u"
  by (auto simp: is_quit_def is_local_command_def)

lemma text_or_raise_as_response: "text_or_raise (as_response m)"
  by (cases m) (auto simp: text_or_raise_def as_response_def and_then_def ret_def split: sum.splits)

lemma text_or_raise_and_then:
  assumes "\<And>x. text_or_raise (f x)"
  shows "text_or_raise (and_then m f)"
proof (cases m)
  case (Pair t r)
  show ?thesis
  proof (cases r)
    case (Inl e)
    with Pair show ?thesis by (simp add: text_or_raise_def and_then_def)
  next
    case (Inr x)
    with Pair assms [of x] show ?thesis
      by (cases "f x") (simp add: text_or_raise_def and_then_def)
  qed
qed

lemma text_or_raise_if:
  "text_or_raise a \<Longrightarrow> text_or_raise b \<Longrightarrow> text_or_raise (if x then a else b)"
  by simp

lemma answers_bare_except:
  "text_or_raise m \<Longrightarrow> answers (try_except m (bare_except usage))"
  by (cases m)
     (auto simp: answers_def text_or_raise_def try_except_def bare_except_def ret_def
        split: sum.splits)

lemma unified_respond_answers:
  assumes "prefix ''reply'' (py_lower u) \<or> prefix ''add reaction'' (py_lower u)
             \<or> prefix ''show history'' (py_lower u)"
    and "py_lower u \<noteq> ''list channels''" and "\<not> prefix ''send message'' (py_lower u)"
  shows "answers (unified_respond w u)"
proof (cases "prefix ''reply'' (py_lower u)")
  case True
  with assms(2,3) show ?thesis
    unfolding unified_respond_def Let_def
    by (simp only: if_True if_False simp_thms)
       (intro answers_bare_except text_or_raise_and_then text_or_raise_as_response)
next
  case c3: False
  show ?thesis
  proof (cases "prefix ''add reaction'' (py_lower u)")
    case True
    with assms(2,3) c3 show ?thesis
      unfolding unified_respond_def Let_def
      by (simp only: if_True if_False simp_thms)
         (intro answers_bare_except text_or_raise_and_then text_or_raise_as_response)
  next
    case c4: False
    with assms(1) c3 have "prefix ''show history'' (py_lower u)"
      by blast
    with assms(2,3) c3 c4 show ?thesis
      unfolding unified_respond_def Let_def
      by (simp only: if_True if_False simp_thms)
         (intro answers_bare_except text_or_raise_and_then text_or_raise_as_response)
  qed
qed

lemma list_channels_calls:
  "fst (as_response (slack_list_channels w (PInt 100))) = [SlackConversationsList (PInt 100)]"
  by (simp add: as_response_def slack_list_channels_def eff_defs split: sum.splits exn.splits)

text \<open>
  What holds of the local commands on every line and in every environment. On a line whose
  lower-case form is \<^verbatim>\<open>list channels\<close> or begins with \<^verbatim>\<open>send message\<close>, \<^verbatim>\<open>reply\<close>,
  \<^verbatim>\<open>add reaction\<close> or \<^verbatim>\<open>show history\<close>, the turn of \<^verbatim>\<open>unified_app.py\<close>'s loop issues no
  call to the model, and the line is no quit token. For \<^verbatim>\<open>list channels\<close> the one call issued
  is the listing of channels with the limit 100. The branches for \<^verbatim>\<open>reply\<close>,
  \<^verbatim>\<open>add reaction\<close> and \<^verbatim>\<open>show history\<close> stand in \<^verbatim>\<open>try\<close> with a bare \<^verbatim>\<open>except\<close>: they always
  print a response and the loop goes on.
\<close>

lemma local_commands_issue_no_model_call:
  assumes "is_local_command u"
  shows "\<not> invokes_model (fst (unified_turn w u))
       \<and> \<not> is_quit u
       \<and> (py_lower u = ''list channels'' \<longrightarrow>
            fst (unified_turn w u) = [SlackConversationsList (PInt 100)])
       \<and> (py_lower u \<noteq> ''list channels'' \<longrightarrow> \<not> prefix ''send message'' (py_lower u) \<longrightarrow>
            (\<exists>t s. unified_turn w u = (t, [newline @ s], Continue)))"
proof (intro conjI impI)
  from assms show q: "\<not> is_quit u" by (rule local_command_not_quit)
  with unified_respond_local [OF assms] show "\<not> invokes_model (fst (unified_turn w u))"
    by (simp add: unified_turn_calls)
  { assume "py_lower u = ''list channels''"
    with q list_channels_calls show "fst (unified_turn w u) = [SlackConversationsList (PInt 100)]"
      by (simp add: unified_turn_calls unified_respond_def) }
  { assume n: "py_lower u \<noteq> ''list channels''" "\<not> prefix ''send message'' (py_lower u)"
    with assms have "prefix ''reply'' (py_lower u) \<or> prefix ''add reaction'' (py_lower u)
             \<or> prefix ''show history'' (py_lower u)"
      unfolding is_local_command_def by blast
    from unified_respond_answers [OF this n] obtain t s
      where "unified_respond w u = (t, Inr (PStr s))" unfolding answers_def by blast
    with q have "unified_turn w u = (t, [newline @ s], Continue)"
      by (simp add: unified_turn_def)
    then show "\<exists>t s. unified_turn w u = (t, [newline @ s], Continue)" by blast }
qed

text \<open>
  C6, where the code departs from it. The line \<^verbatim>\<open>list channels\<close> is a local command, and with
  Slack out of reach (the listing of channels raises an exception that is no
  \<^verbatim>\<open>SlackApiError\<close>) the turn issues that one call, none to the model, prints nothing and
  leaves the loop with the exception: \<^verbatim>\<open>slack_list_channels\<close> has \<^verbatim>\<open>except SlackApiError\<close>
  only, and \<^verbatim>\<open>main\<close> calls it outside any \<^verbatim>\<open>try\<close>. The lines after it are never read. The
  same line in an environment where the call succeeds is answered.
\<close>

theorem list_channels_without_response:
  "is_local_command ''list channels''
   \<and> unified_turn (failing_world offline text_reply) ''list channels''
       = ([SlackConversationsList (PInt 100)], [], Abort offline)
   \<and> unified_main (failing_world offline text_reply) [''list channels'', ''show history general'']
       = ([SlackConversationsList (PInt 100)], [], Some offline)
   \<and> unified_turn (sample_world text_reply) ''list channels''
       = ([SlackConversationsList (PInt 100)], [newline @ bullet @ '' general (C1)''], Continue)"
proof -
  have l: "py_lower ''list channels'' = ''list channels''"
    by (simp add: py_lower_def lower_char_def)
  then have c: "is_local_command ''list channels''"
    by (simp add: is_local_command_def)
  from l have q: "\<not> is_quit ''list channels''"
    by (simp add: is_quit_def)
  have "unified_respond (failing_world offline text_reply) ''list channels''
          = ([SlackConversationsList (PInt 100)], Inl offline)"
    using l
    by (simp add: unified_respond_def as_response_def slack_list_channels_def
          failing_world_def offline_def eff_defs)
  with q have t: "unified_turn (failing_world offline text_reply) ''list channels''
       = ([SlackConversationsList (PInt 100)], [], Abort offline)"
    by (simp add: unified_turn_def)
  then have m: "unified_main (failing_world offline text_reply)
                  [''list channels'', ''show history general'']
       = ([SlackConversationsList (PInt 100)], [], Some offline)"
    by (simp add: unified_main_def)
  have "unified_respond (sample_world text_reply) ''list channels''
          = ([SlackConversationsList (PInt 100)], Inr (PStr (bullet @ '' general (C1)'')))"
    using l
    by (simp add: unified_respond_def as_response_def slack_list_channels_def
          sample_world_def eff_defs)
  with q have s: "unified_turn (sample_world text_reply) ''list channels''
       = ([SlackConversationsList (PInt 100)], [newline @ bullet @ '' general (C1)''], Continue)"
    by (simp add: unified_turn_def)
  from c t m s show ?thesis by (intro conjI)
qed

text \<open>
  The branch for \<^verbatim>\<open>send message\<close> stands outside any \<^verbatim>\<open>try\<close> as well: a
  \<^verbatim>\<open>SlackApiError\<close> whose response has no entry \<^verbatim>\<open>error\<close> leaves \<^verbatim>\<open>slack_post_message\<close>
  and then the loop. In an environment where the call succeeds the line is answered.
\<close>

lemma send_message_without_response:
  "unified_turn (failing_world no_error_entry text_reply) ''send message hi to #general''
     = ([SlackChatPostMessage (PStr ''general'') None (PStr ''hi'')], [],
        Abort (Exception ''KeyError'' (quoted ''error'')))
   \<and> unified_turn (sample_world text_reply) ''send message hi to #general''
       = ([SlackChatPostMessage (PStr ''general'') None (PStr ''hi'')],
          [newline @ ''Message posted successfully (ts: 1700000000.000100)''], Continue)"
proof -
  have q: "\<not> is_quit ''send message hi to #general''"
    by (simp add: is_quit_def py_lower_def lower_char_def)
  have "unified_respond (failing_world no_error_entry text_reply) ''send message hi to #general''
          = ([SlackChatPostMessage (PStr ''general'') None (PStr ''hi'')],
             Inl (Exception ''KeyError'' (quoted ''error'')))"
    by (simp add: unified_respond_def py_lower_def lower_char_def py_split_def py_strip_def
          py_replace_def leading_def whitespace_def as_response_def slack_post_message_def
          slack_post_message_except_def lstrip_hash_def failing_world_def no_error_entry_def
          eff_defs)
  moreover have "unified_respond (sample_world text_reply) ''send message hi to #general''
             = ([SlackChatPostMessage (PStr ''general'') None (PStr ''hi'')],
                Inr (PStr ''Message posted successfully (ts: 1700000000.000100)''))"
    by (simp add: unified_respond_def py_lower_def lower_char_def py_split_def py_strip_def
          py_replace_def leading_def whitespace_def as_response_def slack_post_message_def
          lstrip_hash_def sample_world_def eff_defs)
  ultimately show ?thesis using q by (simp add: unified_turn_def)
qed

end
